theory Spec2Isabelle
  imports Complex_Main "HOL-Library.Log_Nat"
begin

section \<open>JavaScript numbers\<close>

text \<open>
  Every number of the program is an IEEE-754 binary64 value. A finite value is kept as the
  rational it denotes, and every arithmetic result is rounded to the nearest binary64
  value (ties to the even significand), with overflow to the infinities and gradual
  underflow. The two zeros are identified: the program never divides a non-zero value by a
  zero whose sign it computed, and no other operation used here tells them apart.
\<close>

datatype jsnum = Fin rat | PInf | NInf | NaN

definition pow2 :: "int \<Rightarrow> rat" where
  "pow2 e = (if 0 \<le> e then 2 ^ nat e else 1 / 2 ^ nat (- e))"

definition ilog2 :: "rat \<Rightarrow> int" where
  \<comment> \<open>the exponent \<open>e\<close> with \<open>2^e \<le> a < 2^(e+1)\<close>, for \<open>a > 0\<close>\<close>
  "ilog2 a = (let e = bitlen (fst (quotient_of a)) - bitlen (snd (quotient_of a))
              in if pow2 e \<le> a then e else e - 1)"

definition round_half_even :: "rat \<Rightarrow> int" where
  "round_half_even y =
     (let f = \<lfloor>y\<rfloor>; d = y - of_int f
      in if d < 1 / 2 then f else if 1 / 2 < d then f + 1
         else if even f then f else f + 1)"

text \<open>
  The significand \<open>m\<close> is at most \<open>2^53\<close>; the rounded magnitude \<open>m * 2^q\<close>
  reaches \<open>2^1024\<close>, the overflow threshold, exactly when \<open>m\<close> has more than \<open>1024 - q\<close> bits.
\<close>

definition assemble :: "bool \<Rightarrow> int \<Rightarrow> int \<Rightarrow> jsnum" where
  "assemble pos q m =
     (if 1024 < q + bitlen m then (if pos then PInf else NInf)
      else Fin (if pos then of_int m * pow2 q else - (of_int m * pow2 q)))"

definition round_at :: "bool \<Rightarrow> int \<Rightarrow> rat \<Rightarrow> jsnum" where
  "round_at pos q a = assemble pos q (round_half_even (a / pow2 q))"

definition quantum :: "int \<Rightarrow> int" where
  \<comment> \<open>the exponent of the last place: 52 below the leading bit, never below \<open>2^-1074\<close>\<close>
  "quantum e = max e (- 1022) - 52"

definition round64 :: "rat \<Rightarrow> jsnum" where
  "round64 x = (if x = 0 then Fin 0 else round_at (0 < x) (quantum (ilog2 \<bar>x\<bar>)) \<bar>x\<bar>)"

definition num_of_nat :: "nat \<Rightarrow> jsnum" where
  "num_of_nat n = round64 (of_nat n)"

text \<open>A decimal literal of the source denotes the binary64 value nearest to it.\<close>

definition lit :: "rat \<Rightarrow> jsnum" where
  "lit x = round64 x"

fun js_neg :: "jsnum \<Rightarrow> jsnum" where
  "js_neg (Fin a) = Fin (- a)"
| "js_neg PInf = NInf"
| "js_neg NInf = PInf"
| "js_neg NaN = NaN"

fun js_add :: "jsnum \<Rightarrow> jsnum \<Rightarrow> jsnum" where
  "js_add (Fin a) (Fin b) = round64 (a + b)"
| "js_add NaN _ = NaN"
| "js_add _ NaN = NaN"
| "js_add PInf NInf = NaN"
| "js_add NInf PInf = NaN"
| "js_add PInf _ = PInf"
| "js_add NInf _ = NInf"
| "js_add _ PInf = PInf"
| "js_add _ NInf = NInf"

definition js_sub :: "jsnum \<Rightarrow> jsnum \<Rightarrow> jsnum" where
  "js_sub x y = js_add x (js_neg y)"

fun js_sign :: "jsnum \<Rightarrow> int" where
  "js_sign (Fin a) = (if a < 0 then - 1 else if a = 0 then 0 else 1)"
| "js_sign PInf = 1"
| "js_sign NInf = - 1"
| "js_sign NaN = 0"

fun js_mul :: "jsnum \<Rightarrow> jsnum \<Rightarrow> jsnum" where
  "js_mul (Fin a) (Fin b) = round64 (a * b)"
| "js_mul NaN _ = NaN"
| "js_mul _ NaN = NaN"
| "js_mul x y =
     (let s = js_sign x * js_sign y
      in if s = 0 then NaN else if 0 < s then PInf else NInf)"

fun js_div :: "jsnum \<Rightarrow> jsnum \<Rightarrow> jsnum" where
  "js_div (Fin a) (Fin b) =
     (if b = 0 then (if a = 0 then NaN else if 0 < a then PInf else NInf)
      else round64 (a / b))"
| "js_div NaN _ = NaN"
| "js_div _ NaN = NaN"
| "js_div (Fin a) _ = Fin 0"
| "js_div x (Fin b) = (if 0 \<le> b then x else js_neg x)"
| "js_div _ _ = NaN"

fun js_lt :: "jsnum \<Rightarrow> jsnum \<Rightarrow> bool" where
  "js_lt (Fin a) (Fin b) = (a < b)"
| "js_lt NaN _ = False"
| "js_lt _ NaN = False"
| "js_lt PInf _ = False"
| "js_lt _ NInf = False"
| "js_lt _ _ = True"

definition js_gt :: "jsnum \<Rightarrow> jsnum \<Rightarrow> bool" where
  "js_gt x y = js_lt y x"

fun truthy :: "jsnum \<Rightarrow> bool" where
  "truthy (Fin a) = (a \<noteq> 0)"
| "truthy NaN = False"
| "truthy _ = True"

fun math_floor :: "jsnum \<Rightarrow> jsnum" where
  "math_floor (Fin a) = Fin (of_int \<lfloor>a\<rfloor>)"
| "math_floor x = x"

fun math_round :: "jsnum \<Rightarrow> jsnum" where
  \<comment> \<open>the nearest integer, a tie going up\<close>
  "math_round (Fin a) = Fin (of_int \<lfloor>a + 1 / 2\<rfloor>)"
| "math_round x = x"

definition math_min :: "jsnum \<Rightarrow> jsnum \<Rightarrow> jsnum" where
  "math_min x y = (if x = NaN \<or> y = NaN then NaN else if js_lt y x then y else x)"

definition math_max :: "jsnum \<Rightarrow> jsnum \<Rightarrow> jsnum" where
  "math_max x y = (if x = NaN \<or> y = NaN then NaN else if js_lt x y then y else x)"


section \<open>Strings\<close>

text \<open>
  A string is the list of its code units; the model covers the code units below 256. The
  functions below are the library methods of the same names.
\<close>

fun strip_prefix :: "string \<Rightarrow> string \<Rightarrow> string option" where
  "strip_prefix [] s = Some s"
| "strip_prefix (p # ps) [] = None"
| "strip_prefix (p # ps) (c # cs) = (if p = c then strip_prefix ps cs else None)"

fun str_includes :: "string \<Rightarrow> string \<Rightarrow> bool" where
  "str_includes [] sub = (sub = [])"
| "str_includes (c # cs) sub =
     (case strip_prefix sub (c # cs) of Some _ \<Rightarrow> True | None \<Rightarrow> str_includes cs sub)"

text \<open>\<open>s.split(sep)\<close> for a non-empty separator: the pieces between the occurrences of
  \<open>sep\<close>, found from the left; at least one piece.\<close>

fun split_acc :: "string \<Rightarrow> string \<Rightarrow> string \<Rightarrow> string list" where
  "split_acc sep acc [] = [rev acc]"
| "split_acc sep acc (c # cs) =
     (case strip_prefix sep (c # cs) of
        Some rest \<Rightarrow> (if length rest < length (c # cs)
                       then rev acc # split_acc sep [] rest
                       else split_acc sep (c # acc) cs)
      | None \<Rightarrow> split_acc sep (c # acc) cs)"

definition str_split :: "string \<Rightarrow> string \<Rightarrow> string list" where
  "str_split s sep = split_acc sep [] s"

definition pop :: "string list \<Rightarrow> string option" where
  "pop xs = (if xs = [] then None else Some (last xs))"

fun join :: "string \<Rightarrow> string list \<Rightarrow> string" where
  "join sep [] = []"
| "join sep [x] = x"
| "join sep (x # y # ys) = x @ sep @ join sep (y # ys)"

definition slice :: "nat \<Rightarrow> nat \<Rightarrow> 'a list \<Rightarrow> 'a list" where
  "slice a b xs = take (b - a) (drop a xs)"

definition lower_char :: "char \<Rightarrow> char" where
  "lower_char c =
     (let n = of_char c :: nat
      in if (65 \<le> n \<and> n \<le> 90) \<or> (192 \<le> n \<and> n \<le> 222 \<and> n \<noteq> 215)
         then char_of (n + 32) else c)"

definition toLowerCase :: "string \<Rightarrow> string" where
  "toLowerCase s = map lower_char s"

definition is_space :: "char \<Rightarrow> bool" where
  "is_space c = (of_char c \<in> {9, 10, 11, 12, 13, 32, 160 :: nat})"

definition is_digit :: "char \<Rightarrow> bool" where
  "is_digit c = (48 \<le> (of_char c :: nat) \<and> (of_char c :: nat) \<le> 57)"

definition is_word :: "char \<Rightarrow> bool" where
  "is_word c =
     (let n = of_char c :: nat
      in (48 \<le> n \<and> n \<le> 57) \<or> (65 \<le> n \<and> n \<le> 90) \<or> (97 \<le> n \<and> n \<le> 122) \<or> n = 95)"

definition trim :: "string \<Rightarrow> string" where
  "trim s = rev (dropWhile is_space (rev (dropWhile is_space s)))"

definition startsWith :: "string \<Rightarrow> string \<Rightarrow> bool" where
  "startsWith s p = (case strip_prefix p s of Some _ \<Rightarrow> True | None \<Rightarrow> False)"

function show_nat :: "nat \<Rightarrow> string" where
  "show_nat n =
     (if n < 10 then [char_of (48 + n)] else show_nat (n div 10) @ [char_of (48 + n mod 10)])"
  by pat_completeness auto
termination
  by (relation "measure id") auto

section \<open>Regular expressions\<close>

text \<open>
  The patterns of the program use literals, character classes, sequence, alternation,
  greedy repetition, optional groups and capture groups. \<open>ms r s\<close> lists the ways \<open>r\<close>
  matches a prefix of \<open>s\<close>, in the order a backtracking matcher tries them: each is the
  captures made and the text left. The first is the match \<open>exec\<close> reports.
\<close>

datatype rx =
    Eps
  | Chr char
  | Cls "char \<Rightarrow> bool"
  | Seq rx rx
  | Alt rx rx
  | Star rx
  | Grp nat rx

type_synonym caps = "(nat \<times> string) list"

fun ms :: "rx \<Rightarrow> string \<Rightarrow> (caps \<times> string) list" where
  "ms Eps s = [([], s)]"
| "ms (Chr c) s = (case s of [] \<Rightarrow> [] | x # xs \<Rightarrow> if x = c then [([], xs)] else [])"
| "ms (Cls P) s = (case s of [] \<Rightarrow> [] | x # xs \<Rightarrow> if P x then [([], xs)] else [])"
| "ms (Seq a b) s =
     concat (map (\<lambda>(c1, t). map (\<lambda>(c2, u). (c1 @ c2, u)) (ms b t)) (ms a s))"
| "ms (Alt a b) s = ms a s @ ms b s"
| "ms (Star a) s =
     concat (map (\<lambda>(c1, t). if length t < length s
                              then map (\<lambda>(c2, u). (c1 @ c2, u)) (ms (Star a) t)
                              else []) (ms a s))
     @ [([], s)]"
| "ms (Grp n a) s =
     map (\<lambda>(c, t). ((n, take (length s - length t) s) # c, t)) (ms a s)"

definition rx_plus :: "rx \<Rightarrow> rx" where
  "rx_plus a = Seq a (Star a)"

definition rx_opt :: "rx \<Rightarrow> rx" where
  "rx_opt a = Alt a Eps"

fun str :: "string \<Rightarrow> rx" where
  "str [] = Eps"
| "str (c # cs) = Seq (Chr c) (str cs)"

fun seqs :: "rx list \<Rightarrow> rx" where
  "seqs [] = Eps"
| "seqs (r # rs) = Seq r (seqs rs)"

fun alts :: "rx list \<Rightarrow> rx" where
  "alts [] = Cls (\<lambda>_. False)"
| "alts [r] = r"
| "alts (r # rs) = Alt r (alts rs)"

definition none_of :: "string \<Rightarrow> rx" where
  "none_of cs = Cls (\<lambda>c. c \<notin> set cs)"

definition one_of :: "string \<Rightarrow> rx" where
  "one_of cs = Cls (\<lambda>c. c \<in> set cs)"

record rmatch =
  m_index :: nat
  m_text :: string
  m_groups :: caps

text \<open>
  All matches of a pattern with the \<open>g\<close> flag, from the left: what the loop
  \<open>while ((match = re.exec(content)) !== null)\<close> visits and what \<open>content.match(re)\<close>
  returns. After a match the search resumes where it ended (one further after an empty
  match, as \<open>match\<close> does; no pattern of the program matches the empty string).
\<close>

function scan :: "rx \<Rightarrow> nat \<Rightarrow> string \<Rightarrow> rmatch list" where
  "scan r i s =
     (case ms r s of
        [] \<Rightarrow> (case s of [] \<Rightarrow> [] | x # xs \<Rightarrow> scan r (i + 1) xs)
      | (c, rest) # _ \<Rightarrow>
          \<lparr>m_index = i, m_text = take (length s - length rest) s, m_groups = c\<rparr> #
          (if length rest < length s then scan r (i + (length s - length rest)) rest
           else (case s of [] \<Rightarrow> [] | x # xs \<Rightarrow> scan r (i + 1) xs)))"
  by pat_completeness auto
termination
  by (relation "measure (\<lambda>(r, i, s). length s)") auto

definition matchAll :: "rx \<Rightarrow> string \<Rightarrow> rmatch list" where
  "matchAll r s = scan r 0 s"

definition grp :: "rmatch \<Rightarrow> nat \<Rightarrow> string option" where
  "grp m n = map_of (m_groups m) n"

definition quotes :: string where
  "quotes = [CHR 0x27, CHR 0x22, CHR 0x60]"

definition rx_ws :: rx where "rx_ws = Cls is_space"
definition rx_word :: rx where "rx_word = Cls is_word"
definition rx_digit :: rx where "rx_digit = Cls is_digit"

definition is_alpha :: "char \<Rightarrow> bool" where
  "is_alpha c =
     (let n = of_char c :: nat in (65 \<le> n \<and> n \<le> 90) \<or> (97 \<le> n \<and> n \<le> 122))"

definition bs :: char where "bs = CHR 0x5C"
definition nl :: string where "nl = [CHR 0x0A]"

definition count :: "rx \<Rightarrow> string \<Rightarrow> nat" where
  \<comment> \<open>the length of \<open>content.match(re)\<close>, 0 when it is \<open>null\<close>\<close>
  "count r s = length (matchAll r s)"

definition grp1 :: "rmatch \<Rightarrow> string" where
  "grp1 m = (case grp m 1 of Some x \<Rightarrow> x | None \<Rightarrow> [])"

definition grp2 :: "rmatch \<Rightarrow> string" where
  "grp2 m = (case grp m 2 of Some x \<Rightarrow> x | None \<Rightarrow> [])"

section \<open>Data model (types/index.ts)\<close>

datatype module_type = Js | Css | Json | Map | Other

datatype insight_type = Warning | Info | Success | Error
datatype impact = Low | Medium | High
datatype category = Dependency | CodeSplitting | TreeShaking | Duplicates | Performance

record OptimizationInsight =
  ins_id :: string
  ins_type :: insight_type
  ins_title :: string
  ins_description :: string
  ins_impact :: impact
  ins_recommendation :: string
  ins_estimatedSavings :: "jsnum option"
  ins_category :: category

datatype file_type = Vanilla | Bundle | Module | Unknown
datatype function_type = Function | Arrow | Method | Async
datatype import_type = Es6 | Commonjs | Dynamic
datatype export_type = Named | Default | All

record FunctionInfo =
  fn_name :: string
  fn_type :: function_type
  fn_lineStart :: nat
  fn_lineEnd :: nat
  fn_size :: nat
  fn_complexity :: nat
  fn_parameters :: "string list"

text \<open>
  \<open>cls_methods\<close> and \<open>cls_properties\<close> hold \<open>None\<close> where the analyzer pushes
  \<open>undefined\<close> (the second element of a match array that has only one).
\<close>

record ClassInfo =
  cls_name :: string
  cls_lineStart :: nat
  cls_lineEnd :: nat
  cls_size :: nat
  cls_methods :: "string option list"
  cls_properties :: "string option list"
  cls_extends :: "string option"
  cls_implements :: "string list"

record ImportInfo =
  imp_source :: string
  imp_type :: import_type
  imp_items :: "string list"
  imp_line :: nat

record ExportInfo =
  exp_type :: export_type
  exp_items :: "string list"
  exp_line :: nat

record LibraryUsage =
  lib_name :: string
  lib_confidence :: jsnum
  lib_patterns :: "string list"
  lib_usageCount :: nat

record CodeMetrics =
  totalLines :: nat
  codeLines :: nat
  commentLines :: nat
  emptyLines :: nat
  functionCount :: nat
  classCount :: nat
  importCount :: nat
  exportCount :: nat
  averageFunctionSize :: jsnum
  averageClassSize :: jsnum
  cyclomaticComplexity :: nat

record JavaScriptAnalysis =
  ja_fileType :: "file_type option"
  ja_confidence :: jsnum
  ja_functions :: "FunctionInfo list"
  ja_classes :: "ClassInfo list"
  ja_imports :: "ImportInfo list"
  ja_exports :: "ExportInfo list"
  ja_dependencies :: "string list"
  ja_libraries :: "LibraryUsage list"
  ja_codeMetrics :: CodeMetrics
  ja_optimizationOpportunities :: "string list"
  ja_insights :: "OptimizationInsight list"

record BundleModule =
  mod_id :: string
  mod_name :: string
  mod_size :: jsnum
  mod_gzipSize :: "jsnum option"
  mod_path :: "string list"
  mod_dependencies :: "string list"
  mod_isExternal :: bool
  mod_type :: module_type
  mod_chunk :: "string option"
  mod_javascriptAnalysis :: "JavaScriptAnalysis option"

record ChunkData =
  chunk_id :: string
  chunk_name :: string
  chunk_size :: jsnum
  chunk_gzipSize :: jsnum
  chunk_modules :: "string list"
  chunk_entry :: bool

record Metadata =
  analyzedAt :: string
  fileCount :: nat
  fileTypes :: "string list"

record BundleData =
  bd_totalSize :: jsnum
  bd_totalGzipSize :: jsnum
  bd_modules :: "BundleModule list"
  bd_chunks :: "ChunkData list"
  bd_insights :: "OptimizationInsight list"
  metadata :: Metadata

section \<open>Performance score (utils/performanceAnalyzer.ts)\<close>

definition sizePenalty :: "jsnum \<Rightarrow> jsnum \<Rightarrow> jsnum" where
  "sizePenalty totalSize score =
     (if js_gt totalSize (js_mul (Fin 1024) (Fin 1024)) then js_sub score (Fin 30)
      else if js_gt totalSize (js_mul (Fin 500) (Fin 1024)) then js_sub score (Fin 20)
      else if js_gt totalSize (js_mul (Fin 250) (Fin 1024)) then js_sub score (Fin 10)
      else score)"

definition compressionPenalty :: "jsnum \<Rightarrow> jsnum \<Rightarrow> jsnum \<Rightarrow> jsnum" where
  "compressionPenalty totalSize totalGzipSize score =
     (if truthy totalGzipSize \<and> js_gt totalSize (Fin 0) then
        (let compressionRatio = js_div totalGzipSize totalSize
         in if js_gt compressionRatio (lit (4 / 10)) then js_sub score (Fin 15)
            else if js_gt compressionRatio (lit (3 / 10)) then js_sub score (Fin 5)
            else score)
      else score)"

definition moduleCountPenalty :: "nat \<Rightarrow> jsnum \<Rightarrow> jsnum" where
  "moduleCountPenalty n score =
     (if 200 < n then js_sub score (Fin 15)
      else if 100 < n then js_sub score (Fin 10)
      else if 50 < n then js_sub score (Fin 5)
      else score)"

definition externalPenalty :: "nat \<Rightarrow> jsnum \<Rightarrow> jsnum" where
  "externalPenalty n score =
     (if 30 < n then js_sub score (Fin 10)
      else if 20 < n then js_sub score (Fin 5)
      else score)"

definition chunkBonus :: "nat \<Rightarrow> jsnum \<Rightarrow> jsnum" where
  "chunkBonus n score = (if 1 < n then js_add score (Fin 10) else score)"

text \<open>The score before the final rounding and clamping.\<close>

definition rawScore :: "BundleData \<Rightarrow> jsnum" where
  "rawScore bundleData =
     (let modules = bd_modules bundleData;
          externalModules = filter mod_isExternal modules
      in chunkBonus (length (bd_chunks bundleData))
           (externalPenalty (length externalModules)
             (moduleCountPenalty (length modules)
               (compressionPenalty (bd_totalSize bundleData) (bd_totalGzipSize bundleData)
                 (sizePenalty (bd_totalSize bundleData) (Fin 100))))))"

definition calculatePerformanceScore :: "BundleData \<Rightarrow> jsnum" where
  "calculatePerformanceScore bundleData =
     math_max (Fin 0) (math_min (Fin 100) (math_round (rawScore bundleData)))"

text \<open>An aggregate of the shape the scoring examples describe: \<open>e\<close> external modules,
  \<open>i\<close> internal ones, \<open>c\<close> chunks.\<close>

definition sampleModule :: "bool \<Rightarrow> BundleModule" where
  "sampleModule ext =
     \<lparr>mod_id = ''m'', mod_name = ''m.js'', mod_size = Fin 1, mod_gzipSize = None,
      mod_path = [''m.js''], mod_dependencies = [], mod_isExternal = ext, mod_type = Js,
      mod_chunk = None, mod_javascriptAnalysis = None\<rparr>"

definition sampleChunk :: ChunkData where
  "sampleChunk =
     \<lparr>chunk_id = ''c'', chunk_name = ''c'', chunk_size = Fin 1, chunk_gzipSize = Fin 1,
      chunk_modules = [], chunk_entry = True\<rparr>"

definition sampleAggregate :: "jsnum \<Rightarrow> jsnum \<Rightarrow> nat \<Rightarrow> nat \<Rightarrow> nat \<Rightarrow> BundleData" where
  "sampleAggregate sz gz e i c =
     \<lparr>bd_totalSize = sz, bd_totalGzipSize = gz,
      bd_modules = replicate e (sampleModule True) @ replicate i (sampleModule False),
      bd_chunks = replicate c sampleChunk, bd_insights = [],
      metadata = \<lparr>analyzedAt = [], fileCount = 0, fileTypes = []\<rparr>\<rparr>"

section \<open>The lexical analyzer (utils/javascriptAnalyzer.ts)\<close>

record JavaScriptAnalyzer =
  an_content :: string
  an_lines :: "string list"
  an_analysis :: JavaScriptAnalysis

definition createEmptyAnalysis :: JavaScriptAnalysis where
  "createEmptyAnalysis =
     \<lparr>ja_fileType = Some Unknown, ja_confidence = Fin 0, ja_functions = [], ja_classes = [],
      ja_imports = [], ja_exports = [], ja_dependencies = [], ja_libraries = [],
      ja_codeMetrics =
        \<lparr>totalLines = 0, codeLines = 0, commentLines = 0, emptyLines = 0, functionCount = 0,
         classCount = 0, importCount = 0, exportCount = 0, averageFunctionSize = Fin 0,
         averageClassSize = Fin 0, cyclomaticComplexity = 0\<rparr>,
      ja_optimizationOpportunities = [], ja_insights = []\<rparr>"

subsection \<open>File type\<close>

definition indicator :: "jsnum \<Rightarrow> rx list \<Rightarrow> string \<Rightarrow> jsnum" where
  \<comment> \<open>\<open>patterns.reduce((score, pattern) => score + (matches ? matches.length * w : 0), 0)\<close>\<close>
  "indicator w patterns content =
     foldl (\<lambda>score pattern.
              js_add score (if 0 < count pattern content
                            then js_mul (num_of_nat (count pattern content)) w else Fin 0))
       (Fin 0) patterns"

definition webpackPatterns :: "rx list" where
  "webpackPatterns =
     [str ''webpack_require'', str ''__webpack_require__'', str ''webpackJsonp'',
      str ''webpackChunk'', str ''__webpack_modules__'']"

definition bundlePatterns :: "rx list" where
  "bundlePatterns =
     [seqs [str ''(function'', Star rx_ws, Chr CHR ''(''],
      alts [str ''UMD'', str ''AMD'', str ''CommonJS''],
      seqs [str ''define'', Star rx_ws, Chr CHR ''(''],
      str ''module.exports'']"

definition modulePatterns :: "rx list" where
  "modulePatterns =
     [seqs [str ''import'', rx_plus rx_ws],
      seqs [str ''export'', rx_plus rx_ws],
      seqs [str ''from'', rx_plus rx_ws, one_of quotes]]"

definition vanillaPatterns :: "rx list" where
  "vanillaPatterns =
     [seqs [str ''function'', rx_plus rx_ws, rx_plus rx_word, Star rx_ws, Chr CHR ''(''],
      seqs [str ''const'', rx_plus rx_ws, rx_plus rx_word, Star rx_ws, Chr CHR ''=''],
      seqs [str ''let'', rx_plus rx_ws, rx_plus rx_word, Star rx_ws, Chr CHR ''=''],
      seqs [str ''var'', rx_plus rx_ws, rx_plus rx_word, Star rx_ws, Chr CHR ''=''],
      seqs [str ''class'', rx_plus rx_ws, rx_plus rx_word]]"

definition detectWebpackIndicators :: "string \<Rightarrow> jsnum" where
  "detectWebpackIndicators content = indicator (lit (2 / 10)) webpackPatterns content"

definition detectBundleIndicators :: "string \<Rightarrow> jsnum" where
  "detectBundleIndicators content = indicator (lit (15 / 100)) bundlePatterns content"

definition detectModuleIndicators :: "string \<Rightarrow> jsnum" where
  "detectModuleIndicators content = indicator (lit (1 / 10)) modulePatterns content"

definition detectVanillaIndicators :: "string \<Rightarrow> jsnum" where
  "detectVanillaIndicators content = indicator (lit (5 / 100)) vanillaPatterns content"

fun js_eq :: "jsnum \<Rightarrow> jsnum \<Rightarrow> bool" where
  \<comment> \<open>\<open>===\<close> on numbers\<close>
  "js_eq NaN _ = False"
| "js_eq _ NaN = False"
| "js_eq x y = (x = y)"

datatype score_key = KWebpack | KBundle | KModule | KVanilla

text \<open>
  \<open>ja_fileType\<close> is \<open>None\<close> where the source leaves \<open>undefined\<close>: \<open>find\<close> returns it when
  no score equals the maximum, which \<open>===\<close> allows for \<open>NaN\<close> only.
\<close>

definition detectFileType :: "JavaScriptAnalyzer \<Rightarrow> JavaScriptAnalyzer" where
  "detectFileType this =
     (let scores =
            [(KWebpack, js_mul (detectWebpackIndicators (an_content this)) (lit (4 / 10))),
             (KBundle, js_mul (detectBundleIndicators (an_content this)) (lit (3 / 10))),
             (KModule, js_mul (detectModuleIndicators (an_content this)) (lit (2 / 10))),
             (KVanilla, js_mul (detectVanillaIndicators (an_content this)) (lit (1 / 10)))];
          maxScore = foldl math_max NInf (map snd scores);
          fileType = map_option fst (find (\<lambda>(key, v). js_eq v maxScore) scores)
      in this\<lparr>an_analysis := (an_analysis this)
           \<lparr>ja_fileType :=
              (case fileType of
                 None \<Rightarrow> None
               | Some KWebpack \<Rightarrow> Some Bundle
               | Some KBundle \<Rightarrow> Some Bundle
               | Some KModule \<Rightarrow> Some Module
               | Some KVanilla \<Rightarrow> Some Vanilla),
            ja_confidence := math_round (js_mul maxScore (Fin 100))\<rparr>\<rparr>)"

subsection \<open>Helper methods\<close>

definition getLineNumber :: "JavaScriptAnalyzer \<Rightarrow> nat \<Rightarrow> nat" where
  "getLineNumber this index = length (str_split (take index (an_content this)) nl)"

fun find_close :: "nat \<Rightarrow> string list \<Rightarrow> nat option" where
  "find_close i [] = None"
| "find_close i (l # ls) =
     (if str_includes l ''}'' \<and> trim l = ''}'' then Some (i + 1) else find_close (i + 1) ls)"

definition getLineEnd :: "JavaScriptAnalyzer \<Rightarrow> nat \<Rightarrow> nat" where
  \<comment> \<open>the loop \<open>for (i = startLine; i < lines.length; i++)\<close>\<close>
  "getLineEnd this startLine =
     (case find_close startLine (drop startLine (an_lines this)) of
        Some n \<Rightarrow> n
      | None \<Rightarrow> length (an_lines this))"

definition calculateFunctionSize :: "JavaScriptAnalyzer \<Rightarrow> nat \<Rightarrow> nat \<Rightarrow> nat" where
  "calculateFunctionSize this startLine endLine =
     length (join nl (slice (startLine - 1) endLine (an_lines this)))"

definition complexityPatterns :: "rx list" where
  "complexityPatterns =
     [seqs [str ''if'', Star rx_ws, Chr CHR ''(''],
      seqs [str ''else'', Star rx_ws, str ''if'', Star rx_ws, Chr CHR ''(''],
      seqs [str ''for'', Star rx_ws, Chr CHR ''(''],
      seqs [str ''while'', Star rx_ws, Chr CHR ''(''],
      seqs [str ''switch'', Star rx_ws, Chr CHR ''(''],
      seqs [Chr CHR ''?'', Star rx_ws, rx_plus (none_of '':''), Chr CHR '':'']]"

definition calculateComplexity :: "JavaScriptAnalyzer \<Rightarrow> nat \<Rightarrow> nat \<Rightarrow> nat" where
  "calculateComplexity this startLine endLine =
     (let functionContent = join nl (slice (startLine - 1) endLine (an_lines this))
      in foldl (\<lambda>complexity pattern. complexity + count pattern functionContent)
           1 complexityPatterns)"

definition calculateOverallComplexity :: "JavaScriptAnalyzer \<Rightarrow> nat" where
  "calculateOverallComplexity this =
     foldl (\<lambda>total f. total + fn_complexity f) 0 (ja_functions (an_analysis this))"

text \<open>
  \<open>line.match(pattern)\<close> with the \<open>g\<close> flag is the array of the matched texts, so the
  \<open>match[1]\<close> that is pushed is the second matched text of the line, or \<open>undefined\<close>.
\<close>

definition second_match :: "rx list \<Rightarrow> string list \<Rightarrow> string option list" where
  "second_match patterns classContent =
     concat (map (\<lambda>line.
       concat (map (\<lambda>pattern.
         (let match = map m_text (matchAll pattern line)
          in if match = [] then []
             else [if 1 < length match then Some (match ! 1) else None]))
         patterns))
       classContent)"

definition methodPatterns :: "rx list" where
  "methodPatterns =
     [seqs [Grp 1 (rx_plus rx_word), Star rx_ws, Chr CHR ''('', Star (none_of '')''),
            Chr CHR '')'', Star rx_ws, Chr CHR ''{''],
      seqs [Grp 1 (rx_plus rx_word), Star rx_ws, Chr CHR ''='', Star rx_ws, Chr CHR ''('',
            Star (none_of '')''), Chr CHR '')'', Star rx_ws, str ''=>''],
      seqs [str ''async'', rx_plus rx_ws, Grp 1 (rx_plus rx_word), Star rx_ws, Chr CHR ''('',
            Star (none_of '')''), Chr CHR '')'']]"

definition propertyPatterns :: "rx list" where
  "propertyPatterns =
     [seqs [Grp 1 (rx_plus rx_word), Star rx_ws, one_of '':=''],
      seqs [str ''get'', rx_plus rx_ws, Grp 1 (rx_plus rx_word), Star rx_ws, str ''()''],
      seqs [str ''set'', rx_plus rx_ws, Grp 1 (rx_plus rx_word), Star rx_ws, Chr CHR ''('']]"

definition extractClassMethods :: "string list \<Rightarrow> string option list" where
  "extractClassMethods classContent = second_match methodPatterns classContent"

definition extractClassProperties :: "string list \<Rightarrow> string option list" where
  "extractClassProperties classContent = second_match propertyPatterns classContent"

subsection \<open>Functions and classes\<close>

definition functionRegex :: rx where
  "functionRegex =
     seqs [str ''function'', rx_plus rx_ws, Grp 1 (rx_plus rx_word), Star rx_ws, Chr CHR ''('',
           Grp 2 (Star (none_of '')'')), Chr CHR '')'']"

definition arrowFunctionRegex :: rx where
  "arrowFunctionRegex =
     seqs [str ''const'', rx_plus rx_ws, Grp 1 (rx_plus rx_word), Star rx_ws, Chr CHR ''='',
           Star rx_ws, Chr CHR ''('', Grp 2 (Star (none_of '')'')), Chr CHR '')'', Star rx_ws,
           str ''=>'']"

definition asyncFunctionRegex :: rx where
  "asyncFunctionRegex =
     seqs [str ''async'', rx_plus rx_ws, str ''function'', rx_plus rx_ws,
           Grp 1 (rx_plus rx_word), Star rx_ws, Chr CHR ''('', Grp 2 (Star (none_of '')'')),
           Chr CHR '')'']"

definition functionInfo :: "JavaScriptAnalyzer \<Rightarrow> function_type \<Rightarrow> rmatch \<Rightarrow> FunctionInfo" where
  "functionInfo this kind match =
     (let functionName = grp1 match;
          parameters = filter (\<lambda>p. p \<noteq> []) (map trim (str_split (grp2 match) '',''));
          lineStart = getLineNumber this (m_index match);
          lineEnd = getLineEnd this lineStart;
          size = calculateFunctionSize this lineStart lineEnd
      in \<lparr>fn_name = functionName, fn_type = kind, fn_lineStart = lineStart,
          fn_lineEnd = lineEnd, fn_size = size,
          fn_complexity = calculateComplexity this lineStart lineEnd,
          fn_parameters = parameters\<rparr>)"

definition analyzeFunctions :: "JavaScriptAnalyzer \<Rightarrow> JavaScriptAnalyzer" where
  "analyzeFunctions this =
     this\<lparr>an_analysis := (an_analysis this)
       \<lparr>ja_functions := ja_functions (an_analysis this)
          @ map (functionInfo this Function) (matchAll functionRegex (an_content this))
          @ map (functionInfo this Arrow) (matchAll arrowFunctionRegex (an_content this))
          @ map (functionInfo this Async) (matchAll asyncFunctionRegex (an_content this))\<rparr>\<rparr>"

definition classRegex :: rx where
  "classRegex =
     seqs [str ''class'', rx_plus rx_ws, Grp 1 (rx_plus rx_word),
           rx_opt (seqs [rx_plus rx_ws, str ''extends'', rx_plus rx_ws, Grp 2 (rx_plus rx_word)]),
           rx_opt (seqs [rx_plus rx_ws, str ''implements'', rx_plus rx_ws,
                         Grp 3 (rx_plus (none_of ''{''))]),
           Star rx_ws, Chr CHR ''{'']"

definition classInfo :: "JavaScriptAnalyzer \<Rightarrow> rmatch \<Rightarrow> ClassInfo" where
  "classInfo this match =
     (let className = grp1 match;
          extendsClass = grp match 2;
          implementsInterfaces =
            (case grp match 3 of
               Some i \<Rightarrow> if i \<noteq> [] then map trim (str_split i '','') else []
             | None \<Rightarrow> []);
          lineStart = getLineNumber this (m_index match);
          lineEnd = getLineEnd this lineStart;
          size = calculateFunctionSize this lineStart lineEnd;
          classContent = slice (lineStart - 1) lineEnd (an_lines this)
      in \<lparr>cls_name = className, cls_lineStart = lineStart, cls_lineEnd = lineEnd,
          cls_size = size, cls_methods = extractClassMethods classContent,
          cls_properties = extractClassProperties classContent,
          cls_extends = extendsClass, cls_implements = implementsInterfaces\<rparr>)"

definition analyzeClasses :: "JavaScriptAnalyzer \<Rightarrow> JavaScriptAnalyzer" where
  "analyzeClasses this =
     this\<lparr>an_analysis := (an_analysis this)
       \<lparr>ja_classes := ja_classes (an_analysis this)
          @ map (classInfo this) (matchAll classRegex (an_content this))\<rparr>\<rparr>"

subsection \<open>Imports and exports\<close>

definition importRegex :: rx where
  "importRegex =
     seqs [str ''import'', rx_plus rx_ws,
           rx_opt (seqs [Chr CHR ''{'', Grp 1 (rx_plus (none_of ''}'')), Chr CHR ''}'',
                         rx_plus rx_ws, str ''from'', rx_plus rx_ws]),
           one_of quotes, Grp 2 (rx_plus (none_of quotes)), one_of quotes]"

definition requireRegex :: rx where
  "requireRegex =
     seqs [str ''require'', Star rx_ws, Chr CHR ''('', Star rx_ws, one_of quotes,
           Grp 1 (rx_plus (none_of quotes)), one_of quotes, Star rx_ws, Chr CHR '')'']"

definition dynamicImportRegex :: rx where
  "dynamicImportRegex =
     seqs [str ''import'', Star rx_ws, Chr CHR ''('', Star rx_ws, one_of quotes,
           Grp 1 (rx_plus (none_of quotes)), one_of quotes, Star rx_ws, Chr CHR '')'']"

definition es6Import :: "JavaScriptAnalyzer \<Rightarrow> rmatch \<Rightarrow> ImportInfo" where
  "es6Import this match =
     \<lparr>imp_source = grp2 match, imp_type = Es6,
      imp_items = (case grp match 1 of
                     Some i \<Rightarrow> if i \<noteq> [] then map trim (str_split i '','') else [''default'']
                   | None \<Rightarrow> [''default'']),
      imp_line = getLineNumber this (m_index match)\<rparr>"

definition commonjsImport :: "JavaScriptAnalyzer \<Rightarrow> rmatch \<Rightarrow> ImportInfo" where
  "commonjsImport this match =
     \<lparr>imp_source = grp1 match, imp_type = Commonjs, imp_items = [''default''],
      imp_line = getLineNumber this (m_index match)\<rparr>"

definition dynamicImport :: "JavaScriptAnalyzer \<Rightarrow> rmatch \<Rightarrow> ImportInfo" where
  "dynamicImport this match =
     \<lparr>imp_source = grp1 match, imp_type = Dynamic, imp_items = [''dynamic''],
      imp_line = getLineNumber this (m_index match)\<rparr>"

definition analyzeImports :: "JavaScriptAnalyzer \<Rightarrow> JavaScriptAnalyzer" where
  \<comment> \<open>each loop pushes the import and then its source, so both lists grow in step\<close>
  "analyzeImports this =
     (let found = map (es6Import this) (matchAll importRegex (an_content this))
                @ map (commonjsImport this) (matchAll requireRegex (an_content this))
                @ map (dynamicImport this) (matchAll dynamicImportRegex (an_content this))
      in this\<lparr>an_analysis := (an_analysis this)
           \<lparr>ja_imports := ja_imports (an_analysis this) @ found,
            ja_dependencies := ja_dependencies (an_analysis this) @ map imp_source found\<rparr>\<rparr>)"

definition namedExportRegex :: rx where
  "namedExportRegex =
     seqs [str ''export'', rx_plus rx_ws,
           alts [str ''const'', str ''let'', str ''var'', str ''function'', str ''class''],
           rx_plus rx_ws, Grp 1 (rx_plus rx_word)]"

definition defaultExportRegex :: rx where
  "defaultExportRegex =
     seqs [str ''export'', rx_plus rx_ws, str ''default'', rx_plus rx_ws,
           Grp 1 (rx_plus rx_word)]"

definition exportAllRegex :: rx where
  "exportAllRegex =
     seqs [str ''export'', rx_plus rx_ws, Chr CHR ''*'', rx_plus rx_ws, str ''from'',
           rx_plus rx_ws, one_of quotes, Grp 1 (rx_plus (none_of quotes)), one_of quotes]"

definition exportInfo :: "JavaScriptAnalyzer \<Rightarrow> export_type \<Rightarrow> rmatch \<Rightarrow> ExportInfo" where
  "exportInfo this kind match =
     \<lparr>exp_type = kind, exp_items = [grp1 match],
      exp_line = getLineNumber this (m_index match)\<rparr>"

definition analyzeExports :: "JavaScriptAnalyzer \<Rightarrow> JavaScriptAnalyzer" where
  "analyzeExports this =
     this\<lparr>an_analysis := (an_analysis this)
       \<lparr>ja_exports := ja_exports (an_analysis this)
          @ map (exportInfo this Named) (matchAll namedExportRegex (an_content this))
          @ map (exportInfo this Default) (matchAll defaultExportRegex (an_content this))
          @ map (exportInfo this All) (matchAll exportAllRegex (an_content this))\<rparr>\<rparr>"

subsection \<open>Libraries\<close>

text \<open>A library pattern is kept with its source text, which the analysis reports.\<close>

record library =
  l_name :: string
  l_patterns :: "(string \<times> rx) list"
  l_confidence :: jsnum

definition libraryPatterns :: "library list" where
  "libraryPatterns =
     [\<lparr>l_name = ''jQuery'',
       l_patterns = [([bs] @ ''$'' @ [bs] @ ''('', str ''$(''),
                     (''jQuery'' @ [bs] @ ''('', str ''jQuery('')],
       l_confidence = lit (9 / 10)\<rparr>,
      \<lparr>l_name = ''Lodash'',
       l_patterns = [(''_'' @ [bs] @ ''.[a-zA-Z]+'', seqs [str ''_.'', rx_plus (Cls is_alpha)]),
                     (''lodash'', str ''lodash'')],
       l_confidence = lit (8 / 10)\<rparr>,
      \<lparr>l_name = ''Moment.js'',
       l_patterns = [(''moment'' @ [bs] @ ''('', str ''moment(''),
                     (''moment'' @ [bs] @ ''.'', str ''moment.'')],
       l_confidence = lit (9 / 10)\<rparr>,
      \<lparr>l_name = ''Axios'',
       l_patterns = [(''axios'' @ [bs] @ ''.'', str ''axios.''),
                     (''axios'' @ [bs] @ ''('', str ''axios('')],
       l_confidence = lit (8 / 10)\<rparr>,
      \<lparr>l_name = ''React'',
       l_patterns = [(''React'' @ [bs] @ ''.'', str ''React.''),
                     (''useState'', str ''useState''),
                     (''useEffect'', str ''useEffect'')],
       l_confidence = lit (9 / 10)\<rparr>,
      \<lparr>l_name = ''Vue'',
       l_patterns = [(''Vue'' @ [bs] @ ''.'', str ''Vue.''),
                     (''createApp'', str ''createApp''),
                     (''ref'' @ [bs] @ ''('', str ''ref('')],
       l_confidence = lit (9 / 10)\<rparr>,
      \<lparr>l_name = ''Angular'',
       l_patterns = [(''angular'' @ [bs] @ ''.'', str ''angular.''),
                     (''@Component'', str ''@Component''),
                     (''@Injectable'', str ''@Injectable'')],
       l_confidence = lit (9 / 10)\<rparr>,
      \<lparr>l_name = ''Express'',
       l_patterns = [(''express'' @ [bs] @ ''('', str ''express(''),
                     (''app'' @ [bs] @ ''.'', str ''app.''),
                     (''router'' @ [bs] @ ''.'', str ''router.'')],
       l_confidence = lit (8 / 10)\<rparr>,
      \<lparr>l_name = ''Node.js'',
       l_patterns = [(''require'' @ [bs] @ ''('', str ''require(''),
                     (''module'' @ [bs] @ ''.exports'', str ''module.exports''),
                     (''process'' @ [bs] @ ''.'', str ''process.'')],
       l_confidence = lit (7 / 10)\<rparr>]"

definition libraryUsage :: "string \<Rightarrow> library \<Rightarrow> LibraryUsage list" where
  "libraryUsage content library =
     (let usageCount = foldl (\<lambda>n (source, pattern). n + count pattern content) 0
                         (l_patterns library)
      in if 0 < usageCount
         then [\<lparr>lib_name = l_name library, lib_confidence = l_confidence library,
                lib_patterns = map fst (l_patterns library), lib_usageCount = usageCount\<rparr>]
         else [])"

definition detectLibraries :: "JavaScriptAnalyzer \<Rightarrow> JavaScriptAnalyzer" where
  "detectLibraries this =
     this\<lparr>an_analysis := (an_analysis this)
       \<lparr>ja_libraries := ja_libraries (an_analysis this)
          @ concat (map (libraryUsage (an_content this)) libraryPatterns)\<rparr>\<rparr>"

subsection \<open>Metrics and opportunities\<close>

definition average :: "nat list \<Rightarrow> jsnum" where
  \<comment> \<open>\<open>xs.length > 0 ? Math.round(xs.reduce((sum, x) => sum + x, 0) / xs.length) : 0\<close>\<close>
  "average xs =
     (if 0 < length xs
      then math_round (js_div (foldl (\<lambda>sum x. js_add sum (num_of_nat x)) (Fin 0) xs)
                              (num_of_nat (length xs)))
      else Fin 0)"

definition is_comment :: "string \<Rightarrow> bool" where
  "is_comment line = (startsWith (trim line) ''//'' \<or> startsWith (trim line) ''/*'')"

definition calculateMetrics :: "JavaScriptAnalyzer \<Rightarrow> JavaScriptAnalyzer" where
  "calculateMetrics this =
     this\<lparr>an_analysis := (an_analysis this)
       \<lparr>ja_codeMetrics :=
          \<lparr>totalLines = length (an_lines this),
           codeLines = length (filter (\<lambda>line. trim line \<noteq> [] \<and> \<not> startsWith (trim line) ''//''
                                  \<and> \<not> startsWith (trim line) ''/*'') (an_lines this)),
           commentLines = length (filter is_comment (an_lines this)),
           emptyLines = length (filter (\<lambda>line. trim line = []) (an_lines this)),
           functionCount = length (ja_functions (an_analysis this)),
           classCount = length (ja_classes (an_analysis this)),
           importCount = length (ja_imports (an_analysis this)),
           exportCount = length (ja_exports (an_analysis this)),
           averageFunctionSize = average (map fn_size (ja_functions (an_analysis this))),
           averageClassSize = average (map cls_size (ja_classes (an_analysis this))),
           cyclomaticComplexity = calculateOverallComplexity this\<rparr>\<rparr>\<rparr>"

definition analyzerInsights :: "JavaScriptAnalyzer \<Rightarrow> JavaScriptAnalyzer" where
  \<comment> \<open>the analyzer's \<open>generateInsights\<close>\<close>
  "analyzerInsights this =
     (let a = an_analysis this;
          largeFunctions = filter (\<lambda>f. 50 < fn_size f) (ja_functions a);
          largeClasses = filter (\<lambda>c. 100 < cls_size c) (ja_classes a)
      in this\<lparr>an_analysis := a
           \<lparr>ja_optimizationOpportunities :=
              (if 0 < length largeFunctions
               then [show_nat (length largeFunctions) @
                 '' large functions detected. Consider breaking them down for better maintainability.'']
               else [])
              @ (if 0 < length (ja_classes a) \<and> 0 < length largeClasses
                 then [show_nat (length largeClasses) @
                   '' large classes detected. Consider splitting into smaller, focused classes.'']
                 else [])
              @ (if 10 < length (ja_imports a)
                 then [''High number of imports detected. Consider bundling or using barrel exports.'']
                 else [])
              @ concat (map (\<lambda>library.
                   if 20 < lib_usageCount library
                   then [''Heavy usage of '' @ lib_name library @
                         '' detected. Consider code splitting or lazy loading.'']
                   else []) (ja_libraries a))
              @ (if 10 < cyclomaticComplexity (ja_codeMetrics a)
                 then [''High cyclomatic complexity detected. Consider simplifying control flow.'']
                 else []),
            ja_insights := []\<rparr>\<rparr>)"

subsection \<open>The entry point\<close>

text \<open>
  \<open>analyzeFile\<close> takes the analyzer object as it is left by earlier calls and returns the
  analysis together with the object as it leaves it.
\<close>

definition analyzeFile :: "string \<Rightarrow> JavaScriptAnalyzer \<Rightarrow> JavaScriptAnalysis \<times> JavaScriptAnalyzer" where
  "analyzeFile content this =
     (let this1 = this\<lparr>an_content := content, an_lines := str_split content nl,
                        an_analysis := createEmptyAnalysis\<rparr>;
          this2 = analyzerInsights (calculateMetrics (detectLibraries (analyzeExports
                    (analyzeImports (analyzeClasses (analyzeFunctions
                      (detectFileType this1)))))))
      in (an_analysis this2, this2))"

definition newJavaScriptAnalyzer :: JavaScriptAnalyzer where
  \<comment> \<open>the constructor\<close>
  "newJavaScriptAnalyzer =
     \<lparr>an_content = [], an_lines = [], an_analysis = createEmptyAnalysis\<rparr>"

section \<open>The bundle analyzer (utils/bundleAnalyzer.ts)\<close>

subsection \<open>What the host provides\<close>

text \<open>
  A file is its name, its size in bytes and what \<open>text()\<close> resolves to (\<open>None\<close> when the
  read is rejected).
\<close>

record File =
  file_name :: string
  file_size :: nat
  file_text :: "string option"

text \<open>
  The entries of a parsed stats file, with the fields the analyzer reads, each absent
  (\<open>None\<close>) or of the type \<open>BundleModule\<close> and \<open>ChunkData\<close> declare for it.
\<close>

record WebpackModule =
  wm_id :: "string option"
  wm_name :: "string option"
  wm_identifier :: "string option"
  wm_size :: "jsnum option"
  wm_gzipSize :: "jsnum option"
  wm_dependencies :: "string list option"
  wm_external :: "bool option"

record WebpackChunk =
  wc_id :: "string option"
  wc_name :: "string option"
  wc_size :: "jsnum option"
  wc_gzipSize :: "jsnum option"
  wc_modules :: "string list option"
  wc_entry :: "bool option"

record json_doc =
  doc_modules :: "WebpackModule list option"
  doc_chunks :: "WebpackChunk list option"
  doc_sources :: "string list option"

text \<open>
  The library functions the analyzer calls and the model does not define: \<open>JSON.parse\<close>
  (\<open>None\<close> when it throws), the clock, and the number functions behind \<open>formatSize\<close> and
  \<open>toFixed\<close>, whose results the language leaves to the implementation.
\<close>

record host =
  parseJSON :: "string \<Rightarrow> json_doc option"
  math_log :: "jsnum \<Rightarrow> jsnum"
  math_pow :: "jsnum \<Rightarrow> jsnum \<Rightarrow> jsnum"
  toFixed :: "jsnum \<Rightarrow> nat \<Rightarrow> string"
  parseFloat :: "string \<Rightarrow> jsnum"
  numberToString :: "jsnum \<Rightarrow> string"
  now :: string

record BundleAnalyzer =
  ba_modules :: "BundleModule list"
  ba_chunks :: "ChunkData list"
  ba_insights :: "OptimizationInsight list"

subsection \<open>Small helpers\<close>

definition or_str :: "string option \<Rightarrow> string option \<Rightarrow> string option" where
  \<comment> \<open>\<open>a || b\<close> on strings that may be absent: the empty string is falsy\<close>
  "or_str a b = (case a of Some x \<Rightarrow> if x \<noteq> [] then a else b | None \<Rightarrow> b)"

definition or_default :: "string option \<Rightarrow> string \<Rightarrow> string" where
  "or_default a d = (case a of Some x \<Rightarrow> if x \<noteq> [] then x else d | None \<Rightarrow> d)"

definition or_num :: "jsnum option \<Rightarrow> jsnum \<Rightarrow> jsnum" where
  \<comment> \<open>\<open>a || d\<close> on numbers that may be absent: 0 and NaN are falsy\<close>
  "or_num a d = (case a of Some x \<Rightarrow> if truthy x then x else d | None \<Rightarrow> d)"

definition extension :: "string \<Rightarrow> string" where
  \<comment> \<open>\<open>name.split('.').pop()\<close>; \<open>split\<close> never returns an empty array\<close>
  "extension name = last (str_split name ''.'')"

definition getFileType :: "string option \<Rightarrow> module_type" where
  "getFileType filename =
     (case filename of
        None \<Rightarrow> Other
      | Some f \<Rightarrow>
          if f = [] then Other
          else (let extension = toLowerCase (extension f)
                in if extension \<in> {''js'', ''jsx'', ''ts'', ''tsx''} then Js
                   else if extension \<in> {''css'', ''scss'', ''sass'', ''less''} then Css
                   else if extension = ''json'' then Json
                   else if extension = ''map'' then Map
                   else Other))"

definition parseModulePath :: "string option \<Rightarrow> string list" where
  "parseModulePath moduleName =
     (case moduleName of
        None \<Rightarrow> [''unknown'']
      | Some n \<Rightarrow>
          if n = [] then [''unknown'']
          else if str_includes n ''node_modules'' \<and> 1 < length (str_split n ''node_modules/'')
          then ''node_modules'' # str_split (str_split n ''node_modules/'' ! 1) ''/''
          else str_split n ''/'')"

definition estimateSourceSize :: "string \<Rightarrow> jsnum" where
  "estimateSourceSize source = js_mul (num_of_nat (length source)) (Fin 2)"

definition type_name :: "module_type \<Rightarrow> string" where
  "type_name t = (case t of Js \<Rightarrow> ''js'' | Css \<Rightarrow> ''css'' | Json \<Rightarrow> ''json''
                  | Map \<Rightarrow> ''map'' | Other \<Rightarrow> ''other'')"

fun uniq :: "'a list \<Rightarrow> 'a list \<Rightarrow> 'a list" where
  \<comment> \<open>the elements of a \<open>Set\<close> in insertion order\<close>
  "uniq seen [] = seen"
| "uniq seen (x # xs) = (if x \<in> set seen then uniq seen xs else uniq (seen @ [x]) xs)"

text \<open>
  \<open>xs.sort((a, b) => b.size - a.size)\<close>: the sort is stable, and an element stays
  before another unless the comparator puts it strictly after.
\<close>

fun insert_desc :: "('a \<Rightarrow> jsnum) \<Rightarrow> 'a \<Rightarrow> 'a list \<Rightarrow> 'a list" where
  "insert_desc key x [] = [x]"
| "insert_desc key x (y # ys) =
     (if js_lt (js_sub (key x) (key y)) (Fin 0) then y # insert_desc key x ys
      else x # y # ys)"

definition sort_desc :: "('a \<Rightarrow> jsnum) \<Rightarrow> 'a list \<Rightarrow> 'a list" where
  "sort_desc key xs = foldr (insert_desc key) xs []"

definition sizes_at :: "jsnum \<Rightarrow> string" where
  \<comment> \<open>\<open>['B', 'KB', 'MB', 'GB'][i]\<close>, printed\<close>
  "sizes_at i =
     (if i = Fin 0 then ''B'' else if i = Fin 1 then ''KB'' else if i = Fin 2 then ''MB''
      else if i = Fin 3 then ''GB'' else ''undefined'')"

definition formatSize :: "host \<Rightarrow> jsnum \<Rightarrow> string" where
  "formatSize h bytes =
     (if js_eq bytes (Fin 0) then ''0 B''
      else (let k = Fin 1024;
                i = math_floor (js_div (math_log h bytes) (math_log h k))
            in numberToString h (parseFloat h (toFixed h (js_div bytes (math_pow h k i)) 2))
               @ '' '' @ sizes_at i))"

subsection \<open>Reading the files\<close>

definition processWebpackModules :: "WebpackModule list \<Rightarrow> BundleAnalyzer \<Rightarrow> BundleAnalyzer" where
  "processWebpackModules webpackModules this =
     this\<lparr>ba_modules := ba_modules this @
       map (\<lambda>(index, webpackModule).
              \<lparr>mod_id = or_default (wm_id webpackModule) (''module-'' @ show_nat index),
               mod_name = or_default (or_str (wm_name webpackModule) (wm_identifier webpackModule))
                            (''Module '' @ show_nat index),
               mod_size = or_num (wm_size webpackModule) (Fin 0),
               mod_gzipSize = wm_gzipSize webpackModule,
               mod_path = parseModulePath
                            (or_str (wm_name webpackModule) (wm_identifier webpackModule)),
               mod_dependencies = (case wm_dependencies webpackModule of
                                     Some d \<Rightarrow> d | None \<Rightarrow> []),
               mod_isExternal = (case wm_external webpackModule of
                                   Some e \<Rightarrow> e | None \<Rightarrow> False),
               mod_type = getFileType
                            (or_str (wm_name webpackModule) (wm_identifier webpackModule)),
               mod_chunk = None, mod_javascriptAnalysis = None\<rparr>)
         (enumerate 0 webpackModules)\<rparr>"

definition processWebpackChunks :: "WebpackChunk list \<Rightarrow> BundleAnalyzer \<Rightarrow> BundleAnalyzer" where
  "processWebpackChunks webpackChunks this =
     this\<lparr>ba_chunks := ba_chunks this @
       map (\<lambda>(index, chunk).
              \<lparr>chunk_id = or_default (wc_id chunk) (''chunk-'' @ show_nat index),
               chunk_name = or_default (wc_name chunk) (''Chunk '' @ show_nat index),
               chunk_size = or_num (wc_size chunk) (Fin 0),
               chunk_gzipSize =
                 or_num (wc_gzipSize chunk)
                   (js_mul (case wc_size chunk of Some s \<Rightarrow> s | None \<Rightarrow> NaN) (lit (3 / 10))),
               chunk_modules = (case wc_modules chunk of Some m \<Rightarrow> m | None \<Rightarrow> []),
               chunk_entry = (case wc_entry chunk of Some e \<Rightarrow> e | None \<Rightarrow> False)\<rparr>)
         (enumerate 0 webpackChunks)\<rparr>"

text \<open>
  A method that can throw returns \<open>None\<close> for the throw; it throws before it changes the
  analyzer.
\<close>

definition processWebpackBundle :: "host \<Rightarrow> File \<Rightarrow> BundleAnalyzer \<Rightarrow> BundleAnalyzer option" where
  "processWebpackBundle h file this =
     (case file_text file of
        None \<Rightarrow> None
      | Some content \<Rightarrow>
          (case parseJSON h content of
             None \<Rightarrow> None
           | Some data \<Rightarrow>
               (case doc_modules data of
                  Some modules \<Rightarrow> Some (processWebpackModules modules this)
                | None \<Rightarrow>
                    (case doc_chunks data of
                       Some chunks \<Rightarrow> Some (processWebpackChunks chunks this)
                     | None \<Rightarrow> Some this))))"

definition processSourceMap :: "host \<Rightarrow> File \<Rightarrow> BundleAnalyzer \<Rightarrow> BundleAnalyzer option" where
  "processSourceMap h file this =
     (case file_text file of
        None \<Rightarrow> None
      | Some content \<Rightarrow>
          (case parseJSON h content of
             None \<Rightarrow> None
           | Some data \<Rightarrow>
               (case doc_sources data of
                  None \<Rightarrow> Some this
                | Some sources \<Rightarrow>
                    Some (this\<lparr>ba_modules := ba_modules this @
                      map (\<lambda>(index, source).
                             \<lparr>mod_id = ''sourcemap-'' @ show_nat index, mod_name = source,
                              mod_size = estimateSourceSize source, mod_gzipSize = None,
                              mod_path = str_split source ''/'', mod_dependencies = [],
                              mod_isExternal = False, mod_type = getFileType (Some source),
                              mod_chunk = None, mod_javascriptAnalysis = None\<rparr>)
                        (enumerate 0 sources)\<rparr>))))"

definition estimateBundleModules :: "string \<Rightarrow> BundleModule list" where
  "estimateBundleModules content =
     (let totalSize = num_of_nat (length content);
          moduleTypes =
            [(''React Core'', Js, lit (15 / 100)),
             (''React DOM'', Js, lit (12 / 100)),
             (''Application Code'', Js, lit (25 / 100)),
             (''Dependencies'', Js, lit (35 / 100)),
             (''Runtime'', Js, lit (13 / 100))]
      in map (\<lambda>(index, name, type, sizeRatio).
                \<lparr>mod_id = ''estimated-'' @ show_nat index, mod_name = name,
                 mod_size = math_floor (js_mul totalSize sizeRatio), mod_gzipSize = None,
                 mod_path = [name], mod_dependencies = [], mod_isExternal = False,
                 mod_type = type, mod_chunk = None, mod_javascriptAnalysis = None\<rparr>)
           (enumerate 0 moduleTypes))"

definition requirePatterns :: "rx list" where
  \<comment> \<open>\<open>modulePatterns\<close> of \<open>parseCompiledWebpackBundle\<close>\<close>
  "requirePatterns =
     [seqs [str ''webpack_require('', one_of quotes, Grp 1 (rx_plus (none_of quotes)),
            one_of quotes, Chr CHR '')''],
      seqs [str ''__webpack_require__('', one_of quotes, Grp 1 (rx_plus (none_of quotes)),
            one_of quotes, Chr CHR '')''],
      seqs [str ''webpack_require('', Grp 1 (rx_plus rx_digit), Chr CHR '')''],
      seqs [str ''__webpack_require__('', Grp 1 (rx_plus rx_digit), Chr CHR '')'']]"

definition all_digits :: "string \<Rightarrow> bool" where
  \<comment> \<open>\<open>s.match(/^\d+$/)\<close> is not \<open>null\<close>\<close>
  "all_digits s = (s \<noteq> [] \<and> list_all is_digit s)"

definition moduleNamesOf :: "string \<Rightarrow> string list" where
  \<comment> \<open>the set \<open>moduleNames\<close> after the four loops, in insertion order\<close>
  "moduleNamesOf content =
     uniq [] (filter (\<lambda>n. n \<noteq> [] \<and> \<not> all_digits n)
                (concat (map (\<lambda>pattern. map grp1 (matchAll pattern content)) requirePatterns)))"

definition parseCompiledWebpackBundle :: "string \<Rightarrow> string \<Rightarrow> BundleAnalyzer \<Rightarrow> BundleAnalyzer" where
  "parseCompiledWebpackBundle content filename this =
     (let moduleNames = moduleNamesOf content
      in if 0 < length moduleNames then
           (let moduleSize = math_floor (js_div (num_of_nat (length content))
                                                (num_of_nat (length moduleNames)));
                modules =
                  map (\<lambda>(index, moduleName).
                         \<lparr>mod_id = ''compiled-'' @ show_nat index, mod_name = moduleName,
                          mod_size = moduleSize, mod_gzipSize = None,
                          mod_path = str_split moduleName ''/'', mod_dependencies = [],
                          mod_isExternal = False, mod_type = getFileType (Some moduleName),
                          mod_chunk = None, mod_javascriptAnalysis = None\<rparr>)
                    (enumerate 0 moduleNames);
                chunkData =
                  \<lparr>chunk_id = ''main-bundle'', chunk_name = filename,
                   chunk_size = num_of_nat (length content),
                   chunk_gzipSize = math_floor (js_mul (num_of_nat (length content)) (lit (3 / 10))),
                   chunk_modules = map mod_id modules, chunk_entry = True\<rparr>
            in this\<lparr>ba_chunks := ba_chunks this @ [chunkData],
                    ba_modules := ba_modules this @ modules\<rparr>)
         else this\<lparr>ba_modules := ba_modules this @ estimateBundleModules content\<rparr>)"

definition hasWebpackIndicators :: "string \<Rightarrow> bool" where
  "hasWebpackIndicators content =
     (str_includes content ''webpack_require'' \<or> str_includes content ''__webpack_require__''
      \<or> str_includes content ''webpackJsonp'' \<or> str_includes content ''webpackChunk'')"

definition tryParseAsWebpackBundle :: "File \<Rightarrow> BundleAnalyzer \<Rightarrow> bool \<times> BundleAnalyzer" where
  \<comment> \<open>a rejected read is caught inside and answered \<open>false\<close>\<close>
  "tryParseAsWebpackBundle file this =
     (case file_text file of
        None \<Rightarrow> (False, this)
      | Some content \<Rightarrow>
          if hasWebpackIndicators content
          then (True, parseCompiledWebpackBundle content (file_name file) this)
          else (False, this))"

definition processJavaScriptFile :: "File \<Rightarrow> BundleAnalyzer \<Rightarrow> BundleAnalyzer option" where
  "processJavaScriptFile file this =
     (case file_text file of
        None \<Rightarrow> None
      | Some content \<Rightarrow>
          (let jsAnalysis = fst (analyzeFile content newJavaScriptAnalyzer)
           in Some (this\<lparr>ba_modules := ba_modules this @
                [\<lparr>mod_id = ''js-'' @ file_name file, mod_name = file_name file,
                  mod_size = num_of_nat (file_size file), mod_gzipSize = None,
                  mod_path = [file_name file],
                  mod_dependencies = ja_dependencies jsAnalysis,
                  mod_isExternal = False, mod_type = Js, mod_chunk = None,
                  mod_javascriptAnalysis = Some jsAnalysis\<rparr>]\<rparr>)))"

definition processFile :: "host \<Rightarrow> File \<Rightarrow> BundleAnalyzer \<Rightarrow> BundleAnalyzer" where
  "processFile h file this =
     (let extension = toLowerCase (extension (file_name file));
          attempt =
            (if extension = ''json'' then processWebpackBundle h file this
             else if extension = ''map'' then processSourceMap h file this
             else if extension = ''js'' then
               (case tryParseAsWebpackBundle file this of
                  (True, this') \<Rightarrow> Some this'
                | (False, this') \<Rightarrow> processJavaScriptFile file this')
             else Some this)
      in case attempt of Some this' \<Rightarrow> this' | None \<Rightarrow> this)"

subsection \<open>Insights\<close>

definition sumSizes :: "BundleModule list \<Rightarrow> jsnum" where
  \<comment> \<open>\<open>modules.reduce((sum, m) => sum + m.size, 0)\<close>\<close>
  "sumSizes modules = foldl (\<lambda>sum m. js_add sum (mod_size m)) (Fin 0) modules"

definition gzipOrEstimate :: "BundleModule \<Rightarrow> jsnum" where
  \<comment> \<open>\<open>m.gzipSize || m.size * 0.3\<close>\<close>
  "gzipOrEstimate m = or_num (mod_gzipSize m) (js_mul (mod_size m) (lit (3 / 10)))"

definition sumGzipSizes :: "BundleModule list \<Rightarrow> jsnum" where
  \<comment> \<open>\<open>modules.reduce((sum, m) => sum + (m.gzipSize || m.size * 0.3), 0)\<close>\<close>
  "sumGzipSizes modules = foldl (\<lambda>sum m. js_add sum (gzipOrEstimate m)) (Fin 0) modules"

definition compressionRatioOf :: "jsnum \<Rightarrow> jsnum \<Rightarrow> jsnum" where
  \<comment> \<open>\<open>((totalSize - totalGzipSize) / totalSize) * 100\<close>\<close>
  "compressionRatioOf totalSize totalGzipSize =
     js_mul (js_div (js_sub totalSize totalGzipSize) totalSize) (Fin 100)"

definition fast3GTimeOf :: "jsnum \<Rightarrow> jsnum" where
  \<comment> \<open>\<open>(totalSize * 8) / (1.6 * 1024 * 1024)\<close>\<close>
  "fast3GTimeOf totalSize =
     js_div (js_mul totalSize (Fin 8)) (js_mul (js_mul (lit (16 / 10)) (Fin 1024)) (Fin 1024))"

definition sizeTierInsight :: "host \<Rightarrow> jsnum \<Rightarrow> OptimizationInsight" where
  \<comment> \<open>the final \<open>if\<close>/\<open>else if\<close>/\<open>else\<close> of \<open>generatePerformanceInsights\<close>\<close>
  "sizeTierInsight h totalSize =
     (if js_gt totalSize (js_mul (Fin 1024) (Fin 1024)) then
        \<lparr>ins_id = ''large-bundle-performance'', ins_type = Warning,
         ins_title = ''Large Bundle Size'',
         ins_description = ''Your total bundle size is '' @ formatSize h totalSize @
           '', which may impact loading performance.'',
         ins_impact = High,
         ins_recommendation = ''Consider implementing code splitting, lazy loading, and analyzing dependencies for optimization opportunities.'',
         ins_estimatedSavings = None, ins_category = Performance\<rparr>
      else if js_gt totalSize (js_mul (Fin 500) (Fin 1024)) then
        \<lparr>ins_id = ''medium-bundle-performance'', ins_type = Info,
         ins_title = ''Moderate Bundle Size'',
         ins_description = ''Your bundle size is '' @ formatSize h totalSize @
           '', which is acceptable but could be optimized further.'',
         ins_impact = Medium,
         ins_recommendation = ''Implement code splitting for non-critical features to improve initial load time.'',
         ins_estimatedSavings = None, ins_category = Performance\<rparr>
      else
        \<lparr>ins_id = ''good-bundle-size'', ins_type = Success,
         ins_title = ''Good Bundle Size'',
         ins_description = ''Your bundle size is '' @ formatSize h totalSize @
           '', which is excellent for performance.'',
         ins_impact = Low,
         ins_recommendation = ''Maintain this size and focus on other optimization areas like caching and delivery.'',
         ins_estimatedSavings = None, ins_category = Performance\<rparr>)"

definition generatePerformanceInsights :: "host \<Rightarrow> jsnum \<Rightarrow> jsnum \<Rightarrow> OptimizationInsight list" where
  \<comment> \<open>the insights the method pushes, in order\<close>
  "generatePerformanceInsights h totalSize totalGzipSize =
     (let fast3GTime = fast3GTimeOf totalSize;
          compressionRatio = compressionRatioOf totalSize totalGzipSize
      in (if js_gt fast3GTime (Fin 3) then
            [\<lparr>ins_id = ''slow-3g-load'', ins_type = Warning,
              ins_title = ''Slow Loading on Mobile Networks'',
              ins_description = ''Your bundle takes '' @ toFixed h fast3GTime 1 @
                ''s to load on fast 3G networks, which may impact mobile user experience.'',
              ins_impact = High,
              ins_recommendation = ''Implement aggressive code splitting and lazy loading to improve mobile performance.'',
              ins_estimatedSavings = None, ins_category = Performance\<rparr>]
          else [])
         @ (if js_lt compressionRatio (Fin 30) then
              [\<lparr>ins_id = ''poor-compression'', ins_type = Warning,
                ins_title = ''Poor Compression Efficiency'',
                ins_description = ''Your bundle only compresses by '' @
                  toFixed h compressionRatio 1 @ ''%, which is below the typical 30-70% range.'',
                ins_impact = Medium,
                ins_recommendation = ''Review your code for opportunities to improve compression (remove comments, minify, use shorter variable names).'',
                ins_estimatedSavings = None, ins_category = Performance\<rparr>]
            else [])
         @ [sizeTierInsight h totalSize])"

definition generateBasicInsights :: "host \<Rightarrow> BundleAnalyzer \<Rightarrow> BundleAnalyzer" where
  "generateBasicInsights h this =
     (let modules = ba_modules this;
          totalSize = sumSizes modules;
          totalGzipSize = sumGzipSizes modules;
          compressionRatio = compressionRatioOf totalSize totalGzipSize;
          jsModules = filter (\<lambda>m. mod_type m = Js) modules;
          cssModules = filter (\<lambda>m. mod_type m = Css) modules;
          otherModules = filter (\<lambda>m. mod_type m \<notin> {Js, Css}) modules;
          fileTypes = uniq [] (map mod_type modules)
      in this\<lparr>ba_insights := ba_insights this
           @ (if 0 < length jsModules then
                [\<lparr>ins_id = ''bundle-composition'', ins_type = Info,
                  ins_title = ''Bundle Composition Analysis'',
                  ins_description = ''Your bundle contains '' @ show_nat (length jsModules) @
                    '' JavaScript modules, '' @ show_nat (length cssModules) @
                    '' CSS modules, and '' @ show_nat (length otherModules) @ '' other assets.'',
                  ins_impact = Low,
                  ins_recommendation = ''Consider code splitting JavaScript modules and optimizing CSS delivery for better performance.'',
                  ins_estimatedSavings = None, ins_category = Performance\<rparr>]
              else [])
           @ (if js_gt compressionRatio (Fin 0) then
                [\<lparr>ins_id = ''compression-efficiency'', ins_type = Success,
                  ins_title = ''Good Compression Ratio'',
                  ins_description = ''Your bundle compresses well with gzip, achieving '' @
                    toFixed h compressionRatio 1 @ ''% size reduction.'',
                  ins_impact = Low,
                  ins_recommendation = ''Ensure your server is configured to serve gzipped content for optimal performance.'',
                  ins_estimatedSavings = None, ins_category = Performance\<rparr>]
              else [])
           @ (if 10 < length modules then
                [\<lparr>ins_id = ''module-count'', ins_type = Info,
                  ins_title = ''Modular Bundle Structure'',
                  ins_description = ''Your bundle is well-modularized with '' @
                    show_nat (length modules) @ '' individual modules.'',
                  ins_impact = Low,
                  ins_recommendation = ''This modular structure enables better caching and code splitting opportunities.'',
                  ins_estimatedSavings = None, ins_category = CodeSplitting\<rparr>]
              else if length modules \<le> 5 then
                [\<lparr>ins_id = ''module-count-low'', ins_type = Warning,
                  ins_title = ''Limited Module Separation'',
                  ins_description = ''Your bundle has only '' @ show_nat (length modules) @
                    '' modules, which may limit caching benefits.'',
                  ins_impact = Medium,
                  ins_recommendation = ''Consider breaking down large modules into smaller, more focused pieces for better caching and maintainability.'',
                  ins_estimatedSavings = None, ins_category = CodeSplitting\<rparr>]
              else [])
           @ generatePerformanceInsights h totalSize totalGzipSize
           @ (if 2 < length fileTypes then
                [\<lparr>ins_id = ''file-type-diversity'', ins_type = Info,
                  ins_title = ''Diverse Asset Types'',
                  ins_description = ''Your bundle includes '' @ show_nat (length fileTypes) @
                    '' different file types: '' @ join '', '' (map type_name fileTypes) @ ''.'',
                  ins_impact = Low,
                  ins_recommendation = ''Ensure each asset type is optimized appropriately (minification for JS/CSS, compression for images, etc.).'',
                  ins_estimatedSavings = None, ins_category = Performance\<rparr>]
              else [])\<rparr>)"

definition getLargeDependencyRecommendation :: "BundleModule \<Rightarrow> string" where
  "getLargeDependencyRecommendation m =
     (let name = toLowerCase (mod_name m)
      in if str_includes name ''moment'' then
           ''Consider replacing moment.js with dayjs or date-fns for smaller bundle size.''
         else if str_includes name ''lodash'' then
           ''Use lodash-es or import specific functions instead of the full library.''
         else if str_includes name ''jquery'' then
           ''Consider using native DOM APIs or lighter alternatives like zepto.js.''
         else ''Analyze if this dependency is necessary or if there are lighter alternatives available.'')"

definition largeDependencyInsight :: "host \<Rightarrow> BundleModule \<Rightarrow> OptimizationInsight" where
  "largeDependencyInsight h m =
     \<lparr>ins_id = ''large-dep-'' @ mod_id m, ins_type = Warning,
      ins_title = ''Large Dependency Detected'',
      ins_description = ''The module '' @ [CHR 0x22] @ mod_name m @ [CHR 0x22] @ '' is '' @ formatSize h (mod_size m) @
        '' in size, which may impact bundle performance.'',
      ins_impact = (if js_gt (mod_size m) (js_mul (Fin 500) (Fin 1024)) then High else Medium),
      ins_recommendation = getLargeDependencyRecommendation m,
      ins_estimatedSavings = Some (js_mul (mod_size m) (lit (3 / 10))),
      ins_category = Dependency\<rparr>"

definition analyzeLargeDependencies :: "host \<Rightarrow> BundleAnalyzer \<Rightarrow> BundleAnalyzer" where
  "analyzeLargeDependencies h this =
     (let largeModules =
            sort_desc mod_size
              (filter (\<lambda>m. js_gt (mod_size m) (js_mul (Fin 100) (Fin 1024))) (ba_modules this))
      in this\<lparr>ba_insights := ba_insights this @ map (largeDependencyInsight h) largeModules\<rparr>)"

definition codeSplitInsight :: "host \<Rightarrow> ChunkData \<Rightarrow> OptimizationInsight" where
  "codeSplitInsight h chunk =
     \<lparr>ins_id = ''code-split-'' @ chunk_id chunk, ins_type = Info,
      ins_title = ''Code Splitting Opportunity'',
      ins_description = ''The chunk '' @ [CHR 0x22] @ chunk_name chunk @ [CHR 0x22] @ '' is '' @
        formatSize h (chunk_size chunk) @ '' and could benefit from code splitting.'',
      ins_impact = Medium,
      ins_recommendation = ''Consider implementing dynamic imports or route-based code splitting to reduce initial bundle size.'',
      ins_estimatedSavings = Some (js_mul (chunk_size chunk) (lit (4 / 10))),
      ins_category = CodeSplitting\<rparr>"

definition analyzeCodeSplittingOpportunities :: "host \<Rightarrow> BundleAnalyzer \<Rightarrow> BundleAnalyzer" where
  "analyzeCodeSplittingOpportunities h this =
     (let largeChunks =
            sort_desc chunk_size
              (filter (\<lambda>c. js_gt (chunk_size c) (js_mul (Fin 200) (Fin 1024))) (ba_chunks this))
      in this\<lparr>ba_insights := ba_insights this @ map (codeSplitInsight h) largeChunks\<rparr>)"

definition analyzeTreeShakingPotential :: "BundleAnalyzer \<Rightarrow> BundleAnalyzer" where
  "analyzeTreeShakingPotential this =
     (let jsModules = filter (\<lambda>m. mod_type m = Js) (ba_modules this)
      in if 50 < length jsModules then
           this\<lparr>ba_insights := ba_insights this @
             [\<lparr>ins_id = ''tree-shaking'', ins_type = Info,
               ins_title = ''Tree Shaking Potential'',
               ins_description = ''Your bundle contains '' @ show_nat (length jsModules) @
                 '' JavaScript modules. Tree shaking could help eliminate unused code.'',
               ins_impact = Medium,
               ins_recommendation = ''Ensure your bundler is configured for tree shaking and use ES6 modules consistently.'',
               ins_estimatedSavings = None, ins_category = TreeShaking\<rparr>]\<rparr>
         else this)"

fun duplicatesOf :: "string list \<Rightarrow> string list \<Rightarrow> string list" where
  \<comment> \<open>\<open>names.filter((name, index) => names.indexOf(name) !== index)\<close>: the names seen before\<close>
  "duplicatesOf seen [] = []"
| "duplicatesOf seen (n # ns) =
     (if n \<in> set seen then n # duplicatesOf seen ns else duplicatesOf (seen @ [n]) ns)"

definition analyzeDuplicates :: "BundleAnalyzer \<Rightarrow> BundleAnalyzer" where
  "analyzeDuplicates this =
     (let moduleNames = map mod_name (ba_modules this);
          duplicates = duplicatesOf [] moduleNames
      in if 0 < length duplicates then
           this\<lparr>ba_insights := ba_insights this @
             [\<lparr>ins_id = ''duplicates'', ins_type = Warning,
               ins_title = ''Duplicate Modules Detected'',
               ins_description = ''Found '' @ show_nat (length duplicates) @
                 '' duplicate module names, which may indicate redundant dependencies.'',
               ins_impact = Medium,
               ins_recommendation = ''Check for duplicate package installations and consider using bundle analyzer plugins to identify duplicates.'',
               ins_estimatedSavings = None, ins_category = Duplicates\<rparr>]\<rparr>
         else this)"

definition analyzePerformance :: "BundleAnalyzer \<Rightarrow> BundleAnalyzer" where
  \<comment> \<open>kept for backward compatibility; it does nothing\<close>
  "analyzePerformance this = this"

definition generateInsights :: "host \<Rightarrow> BundleAnalyzer \<Rightarrow> BundleAnalyzer" where
  "generateInsights h this =
     analyzePerformance (analyzeDuplicates (analyzeTreeShakingPotential
       (analyzeCodeSplittingOpportunities h (analyzeLargeDependencies h
         (generateBasicInsights h (this\<lparr>ba_insights := []\<rparr>))))))"

subsection \<open>The entry point\<close>

definition fileTypeOf :: "File \<Rightarrow> string" where
  \<comment> \<open>\<open>f.name.split('.').pop() || 'unknown'\<close>\<close>
  "fileTypeOf f = (if extension (file_name f) = [] then ''unknown'' else extension (file_name f))"

definition processFiles :: "host \<Rightarrow> File list \<Rightarrow> BundleAnalyzer \<Rightarrow> BundleAnalyzer" where
  \<comment> \<open>the loop \<open>for (const file of files) await this.processFile(file)\<close>\<close>
  "processFiles h files this = foldl (\<lambda>this file. processFile h file this) this files"

text \<open>
  \<open>analyzeFiles\<close> takes the analyzer object as earlier runs left it (the exported analyzer
  is a singleton) and returns the aggregate with the object as it leaves it.
\<close>

definition analyzeFiles :: "host \<Rightarrow> File list \<Rightarrow> BundleAnalyzer \<Rightarrow> BundleData \<times> BundleAnalyzer" where
  "analyzeFiles h files this =
     (let this1 = this\<lparr>ba_modules := [], ba_chunks := [], ba_insights := []\<rparr>;
          this2 = generateInsights h (processFiles h files this1)
      in (\<lparr>bd_totalSize = sumSizes (ba_modules this2),
           bd_totalGzipSize = sumGzipSizes (ba_modules this2),
           bd_modules = ba_modules this2,
           bd_chunks = ba_chunks this2,
           bd_insights = ba_insights this2,
           metadata = \<lparr>analyzedAt = now h, fileCount = length files,
                       fileTypes = map fileTypeOf files\<rparr>\<rparr>,
          this2))"

definition newBundleAnalyzer :: BundleAnalyzer where
  "newBundleAnalyzer = \<lparr>ba_modules = [], ba_chunks = [], ba_insights = []\<rparr>"

definition ingest :: "host \<Rightarrow> File list \<Rightarrow> BundleData" where
  \<comment> \<open>one run on a fresh analyzer\<close>
  "ingest h files = fst (analyzeFiles h files newBundleAnalyzer)"

section \<open>Sample inputs\<close>

text \<open>
  A host whose \<open>JSON.parse\<close> knows the documents of a table and throws on every other
  text; the number formatting is left blank.
\<close>

definition sampleHost :: "(string \<times> json_doc) list \<Rightarrow> host" where
  "sampleHost table =
     \<lparr>parseJSON = map_of table, math_log = (\<lambda>_. NaN), math_pow = (\<lambda>_ _. NaN),
      toFixed = (\<lambda>_ _. []), parseFloat = (\<lambda>_. NaN), numberToString = (\<lambda>_. []),
      now = []\<rparr>"

definition statsModule :: "string \<Rightarrow> jsnum \<Rightarrow> jsnum option \<Rightarrow> WebpackModule" where
  \<comment> \<open>the entry \<open>{"name": n, "size": s}\<close>, with \<open>"gzipSize": g\<close> when given\<close>
  "statsModule n s g =
     \<lparr>wm_id = None, wm_name = Some n, wm_identifier = None, wm_size = Some s,
      wm_gzipSize = g, wm_dependencies = None, wm_external = None\<rparr>"

definition statsDoc :: "WebpackModule list \<Rightarrow> json_doc" where
  "statsDoc entries = \<lparr>doc_modules = Some entries, doc_chunks = None, doc_sources = None\<rparr>"

definition dq :: "string \<Rightarrow> string" where
  \<comment> \<open>a text between double quotes\<close>
  "dq s = [CHR 0x22] @ s @ [CHR 0x22]"

text \<open>The stats file \<open>{"modules":[{"name":"a.js","size":100,"gzipSize":0}]}\<close>.\<close>

definition zeroGzipText :: string where
  "zeroGzipText = ''{'' @ dq ''modules'' @ '':[{'' @ dq ''name'' @ '':'' @ dq ''a.js'' @ '','' @
     dq ''size'' @ '':100,'' @ dq ''gzipSize'' @ '':0}]}''"

definition zeroGzipFile :: File where
  "zeroGzipFile = \<lparr>file_name = ''stats.json'', file_size = 52, file_text = Some zeroGzipText\<rparr>"

text \<open>The stats files \<open>{"modules":[{"name":"a.js","size":200000}]}\<close> and
  \<open>{"modules":[{"name":"b.js","size":200000}]}\<close>.\<close>

definition bigText :: "string \<Rightarrow> string" where
  "bigText n = ''{'' @ dq ''modules'' @ '':[{'' @ dq ''name'' @ '':'' @ dq n @ '','' @
     dq ''size'' @ '':200000}]}''"

definition bigFileA :: File where
  "bigFileA = \<lparr>file_name = ''a-stats.json'', file_size = 43, file_text = Some (bigText ''a.js'')\<rparr>"

definition bigFileB :: File where
  "bigFileB = \<lparr>file_name = ''b-stats.json'', file_size = 43, file_text = Some (bigText ''b.js'')\<rparr>"

text \<open>A file that is not JSON.\<close>

definition brokenFile :: File where
  "brokenFile = \<lparr>file_name = ''broken.json'', file_size = 1, file_text = Some ''{''\<rparr>"

text \<open>A compiled bundle that names no module.\<close>

definition bundleText :: string where
  "bundleText = ''var a = __webpack_require__(1); a.run();''"

definition bundleFile :: File where
  "bundleFile = \<lparr>file_name = ''bundle.js'', file_size = 40, file_text = Some bundleText\<rparr>"

definition sampleTable :: "(string \<times> json_doc) list" where
  "sampleTable =
     [(zeroGzipText, statsDoc [statsModule ''a.js'' (Fin 100) (Some (Fin 0))]),
      (bigText ''a.js'', statsDoc [statsModule ''a.js'' (Fin 200000) None]),
      (bigText ''b.js'', statsDoc [statsModule ''b.js'' (Fin 200000) None])]"

section \<open>Statements of the specification\<close>

text \<open>
  The compressed total as the specification words it: each module counts its
  \<open>gzipSize\<close> when present, otherwise three tenths of its size.
\<close>

definition claimedGzipSum :: "BundleModule list \<Rightarrow> jsnum" where
  "claimedGzipSum modules =
     foldl (\<lambda>sum m. js_add sum (case mod_gzipSize m of
                                    Some g \<Rightarrow> g
                                  | None \<Rightarrow> js_mul (mod_size m) (lit (3 / 10))))
       (Fin 0) modules"

text \<open>
  A file fails per-file processing when its read is rejected, or when it is a \<open>.json\<close> or
  \<open>.map\<close> file whose text \<open>JSON.parse\<close> rejects.
\<close>

definition failsProcessing :: "host \<Rightarrow> File \<Rightarrow> bool" where
  "failsProcessing h file =
     (case file_text file of
        None \<Rightarrow> True
      | Some content \<Rightarrow>
          toLowerCase (extension (file_name file)) \<in> {''json'', ''map''}
          \<and> parseJSON h content = None)"

definition sizeTierIds :: "string list" where
  "sizeTierIds = [''large-bundle-performance'', ''medium-bundle-performance'', ''good-bundle-size'']"

text \<open>
  The require calls of a text whose argument is a string literal: the matches of the
  first two shapes of \<open>requirePatterns\<close>, \<open>webpack_require('...')\<close> and
  \<open>__webpack_require__('...')\<close> with any of the three quote characters.
\<close>

definition stringRequireCalls :: "string \<Rightarrow> rmatch list" where
  "stringRequireCalls content =
     matchAll (requirePatterns ! 0) content @ matchAll (requirePatterns ! 1) content"

section \<open>Exactness of integer arithmetic\<close>

lemma round_half_even_of_int: "round_half_even (of_int z) = z"
  by (simp add: round_half_even_def)

lemma ilog2_of_int_le:
  assumes "0 < n" "n < 2 ^ 53"
  shows "ilog2 (of_int n) \<le> 52"
proof -
  have "bitlen n \<le> 53" using assms by (simp add: bitlen_le_iff_power)
  moreover have "bitlen 1 = 1" by (simp add: bitlen_alt_def)
  ultimately show ?thesis by (simp add: ilog2_def Let_def)
qed

lemma round64_pos_int:
  assumes "0 < n" "n < 2 ^ 53"
  shows "round64 (of_int n) = Fin (of_int n)"
proof -
  define q where "q = quantum (ilog2 (of_int n))"
  have q: "q \<le> 0" "- 1074 \<le> q"
    using ilog2_of_int_le[OF assms] by (auto simp: q_def quantum_def)
  have p: "pow2 q = 1 / 2 ^ nat (- q)" using q by (auto simp: pow2_def)
  have d: "(of_int n :: rat) / pow2 q = of_int (n * 2 ^ nat (- q))" by (simp add: p)
  have m: "round_half_even (of_int n / pow2 q) = n * 2 ^ nat (- q)"
    unfolding d by (rule round_half_even_of_int)
  have bl: "bitlen (n * 2 ^ nat (- q)) = bitlen n + int (nat (- q))"
    using assms by (simp only: bitlen_pow2)
  have "bitlen n \<le> 53" using assms by (simp add: bitlen_le_iff_power)
  then have ov: "\<not> 1024 < q + bitlen (n * 2 ^ nat (- q))" using q bl by simp
  have "round64 (of_int n) = round_at True q (of_int n)"
    using assms by (simp add: round64_def q_def)
  also have "\<dots> = Fin (of_int (n * 2 ^ nat (- q)) * pow2 q)"
    using ov by (simp add: round_at_def assemble_def m)
  also have "of_int (n * 2 ^ nat (- q)) * pow2 q = (of_int n :: rat)" by (simp add: p)
  finally show ?thesis .
qed

lemma round64_int:
  assumes "\<bar>k\<bar> < 2 ^ 53"
  shows "round64 (of_int k) = Fin (of_int k)"
proof -
  consider "k = 0" | "0 < k" | "k < 0" by linarith
  then show ?thesis
  proof cases
    case 1 then show ?thesis by (simp add: round64_def)
  next
    case 2 then show ?thesis using assms by (simp add: round64_pos_int)
  next
    case 3
    define n where "n = - k"
    have n: "0 < n" "n < 2 ^ 53" using 3 assms by (auto simp: n_def)
    have "round64 (of_int k) = round_at False (quantum (ilog2 (of_int n))) (of_int n)"
      using 3 by (simp add: round64_def n_def)
    moreover have "round64 (of_int n) = round_at True (quantum (ilog2 (of_int n))) (of_int n)"
      using n by (simp add: round64_def)
    ultimately show ?thesis using round64_pos_int[OF n]
      by (auto simp: round_at_def assemble_def n_def split: if_splits)
  qed
qed

lemma js_sub_int:
  assumes "\<bar>a - b\<bar> < 2 ^ 53"
  shows "js_sub (Fin (of_int a)) (Fin (of_int b)) = Fin (of_int (a - b))"
proof -
  have "js_sub (Fin (of_int a)) (Fin (of_int b)) = round64 (of_int (a - b))"
    by (simp add: js_sub_def)
  then show ?thesis using round64_int[OF assms] by simp
qed

lemma js_add_int:
  assumes "\<bar>a + b\<bar> < 2 ^ 53"
  shows "js_add (Fin (of_int a)) (Fin (of_int b)) = Fin (of_int (a + b))"
proof -
  have "js_add (Fin (of_int a)) (Fin (of_int b)) = round64 (of_int (a + b))" by simp
  then show ?thesis using round64_int[OF assms] by simp
qed

section \<open>The rounding error\<close>

lemma pow2_powi: "pow2 e = 2 powi e"
  by (auto simp: pow2_def power_int_def field_simps)

lemma pow2_pos: "0 < pow2 e" by (simp add: pow2_powi)

lemma pow2_add: "pow2 (a + b) = pow2 a * pow2 b"
  by (simp add: pow2_powi power_int_add)

lemma pow2_mono: "a \<le> b \<Longrightarrow> pow2 a \<le> pow2 b"
  by (simp add: pow2_powi power_int_increasing)

lemma bitlen_rat_bounds:
  assumes "0 < p"
  shows "pow2 (bitlen p - 1) \<le> of_int p" "(of_int p :: rat) < pow2 (bitlen p)"
proof -
  have b: "1 \<le> bitlen p" using assms by (auto simp: bitlen_alt_def)
  have "(2::int) ^ nat (bitlen p - 1) \<le> p" "p < 2 ^ nat (bitlen p)"
    using bitlen_bounds[OF assms] by auto
  then have "(of_int ((2::int) ^ nat (bitlen p - 1)) :: rat) \<le> of_int p"
      "(of_int p :: rat) < of_int (2 ^ nat (bitlen p))"
    by (simp_all only: of_int_le_iff of_int_less_iff)
  then show "pow2 (bitlen p - 1) \<le> of_int p" "(of_int p :: rat) < pow2 (bitlen p)"
    using b by (simp_all add: pow2_def)
qed

lemma ilog2_bounds:
  assumes "0 < a"
  shows "pow2 (ilog2 a) \<le> a" "a < pow2 (ilog2 a + 1)"
proof -
  obtain p d where pd: "quotient_of a = (p, d)" by (cases "quotient_of a")
  have d: "0 < d" using pd by (rule quotient_of_denom_pos)
  have a: "a = of_int p / of_int d" using pd by (rule quotient_of_div)
  have p: "0 < p" using assms d a by (simp add: zero_less_divide_iff)
  define e where "e = bitlen p - bitlen d"
  have lo: "pow2 (e - 1) < a"
  proof -
    have "pow2 (e - 1) * of_int d < pow2 (e - 1) * pow2 (bitlen d)"
      using bitlen_rat_bounds(2)[OF d] pow2_pos by simp
    also have "\<dots> = pow2 (bitlen p - 1)"
      by (simp add: pow2_add[symmetric] e_def)
    also have "\<dots> \<le> of_int p" using bitlen_rat_bounds(1)[OF p] .
    finally show ?thesis using d by (simp add: a pos_less_divide_eq)
  qed
  have hi: "a < pow2 (e + 1)"
  proof -
    have "of_int p < pow2 (bitlen p)" using bitlen_rat_bounds(2)[OF p] .
    also have "\<dots> = pow2 (e + 1) * pow2 (bitlen d - 1)"
      by (simp add: pow2_add[symmetric] e_def)
    also have "\<dots> \<le> pow2 (e + 1) * of_int d"
      using bitlen_rat_bounds(1)[OF d] pow2_pos[of "e + 1"] by simp
    finally show ?thesis using d by (simp add: a pos_divide_less_eq)
  qed
  have i: "ilog2 a = (if pow2 e \<le> a then e else e - 1)"
    by (simp add: ilog2_def pd e_def Let_def)
  show "pow2 (ilog2 a) \<le> a" using lo by (auto simp: i)
  show "a < pow2 (ilog2 a + 1)" using hi by (auto simp: i)
qed


lemma pow2_less_cancel: "pow2 a < pow2 b \<Longrightarrow> a < b"
  using pow2_mono[of b a] by (cases "a < b") auto

lemma pow2_nat: "pow2 (int k) = 2 ^ k"
  by (simp add: pow2_def)

lemma pow2_neg_nat: "pow2 (- int k) = 1 / 2 ^ k"
  by (simp add: pow2_powi power_int_minus field_simps)

lemma round_half_even_error: "\<bar>of_int (round_half_even y) - y\<bar> \<le> 1 / 2"
proof -
  define d where "d = y - of_int \<lfloor>y\<rfloor>"
  have d: "0 \<le> d" "d < 1" unfolding d_def by linarith+
  have y: "y = of_int \<lfloor>y\<rfloor> + d" by (simp add: d_def)
  consider "d < 1 / 2" | "1 / 2 < d" | "d = 1 / 2" by linarith
  then show ?thesis
  proof cases
    case 1
    then have "round_half_even y = \<lfloor>y\<rfloor>"
      by (simp add: round_half_even_def Let_def d_def)
    then have "of_int (round_half_even y) - y = - d" by (simp add: d_def)
    then show ?thesis using d 1 by simp
  next
    case 2
    then have "round_half_even y = \<lfloor>y\<rfloor> + 1"
      by (simp add: round_half_even_def Let_def d_def)
    then have "of_int (round_half_even y) - y = 1 - d" by (simp add: d_def)
    then show ?thesis using d 2 by simp
  next
    case 3
    then have "round_half_even y = \<lfloor>y\<rfloor> \<or> round_half_even y = \<lfloor>y\<rfloor> + 1"
      by (simp add: round_half_even_def Let_def d_def)
    then have "of_int (round_half_even y) - y = - d \<or> of_int (round_half_even y) - y = 1 - d"
      by (auto simp: d_def)
    then show ?thesis using 3 by auto
  qed
qed

lemma round64_error:
  assumes lo: "1 / 2 ^ 1022 \<le> x" and hi: "x < 2 ^ 1023"
  shows "\<exists>r. round64 x = Fin r \<and> \<bar>r - x\<bar> \<le> x / 2 ^ 53"
proof -
  have x: "0 < x" using lo by (rule less_le_trans[rotated]) simp
  define e where "e = ilog2 x"
  have b: "pow2 e \<le> x" "x < pow2 (e + 1)" using ilog2_bounds[OF x] by (simp_all add: e_def)
  have "pow2 (- 1022) \<le> x" using lo pow2_neg_nat[of 1022] by simp
  then have "pow2 (- 1022) < pow2 (e + 1)" using b(2) by simp
  then have e1: "- 1022 \<le> e" using pow2_less_cancel by fastforce
  have "pow2 e < pow2 1023" using b(1) hi pow2_nat[of 1023] by simp
  then have e2: "e \<le> 1022" using pow2_less_cancel by fastforce
  define q where "q = e - 52"
  have q: "quantum (ilog2 x) = q" using e1 by (simp add: quantum_def q_def e_def)
  define m where "m = round_half_even (x / pow2 q)"
  have pq: "0 < pow2 q" by (rule pow2_pos)
  have me: "\<bar>of_int m - x / pow2 q\<bar> \<le> 1 / 2"
    unfolding m_def by (rule round_half_even_error)
  have "(of_int m - x / pow2 q) * pow2 q = of_int m * pow2 q - x"
    using pq by (simp add: field_simps)
  then have "\<bar>of_int m * pow2 q - x\<bar> = \<bar>(of_int m - x / pow2 q) * pow2 q\<bar>" by simp
  also have "\<dots> = \<bar>of_int m - x / pow2 q\<bar> * pow2 q"
    using pq by (simp only: abs_mult abs_of_pos)
  also have "\<dots> \<le> 1 / 2 * pow2 q" using me pq by (intro mult_right_mono) simp_all
  also have "\<dots> = pow2 e / 2 ^ 53"
  proof -
    have "e = q + 52" by (simp add: q_def)
    then have "pow2 e = pow2 q * pow2 52" by (simp only: pow2_add)
    also have "pow2 52 = 2 ^ 52" using pow2_nat[of 52] by simp
    finally show ?thesis by simp
  qed
  also have "\<dots> \<le> x / 2 ^ 53" using b(1) by (simp add: divide_right_mono)
  finally have err: "\<bar>of_int m * pow2 q - x\<bar> \<le> x / 2 ^ 53" .
  have "x / pow2 q < pow2 (e + 1) / pow2 q" using b(2) pq by (simp add: divide_strict_right_mono)
  also have "pow2 (e + 1) = pow2 q * pow2 53"
  proof -
    have "e + 1 = q + 53" by (simp add: q_def)
    then show ?thesis by (simp only: pow2_add)
  qed
  also have "pow2 q * pow2 53 / pow2 q = 2 ^ 53" using pq pow2_nat[of 53] by simp
  finally have "x / pow2 q < 2 ^ 53" .
  then have "of_int m < (2 ^ 53 + 1 :: rat)" using me by (simp add: abs_if split: if_splits)
  then have "of_int m < (of_int (2 ^ 53 + 1) :: rat)" by simp
  then have "m < 2 ^ 53 + 1" by (simp only: of_int_less_iff)
  then have "m < 2 ^ nat 54" by simp
  then have "bitlen m \<le> 54" by (simp add: bitlen_le_iff_power)
  then have ov: "\<not> 1024 < q + bitlen m" using e2 by (simp add: q_def)
  have "round64 x = Fin (of_int m * pow2 q)"
    using x ov by (simp add: round64_def q round_at_def assemble_def m_def)
  then show ?thesis using err by blast
qed


lemma num_of_nat_exact: "n < 2 ^ 53 \<Longrightarrow> num_of_nat n = Fin (of_nat n)"
  using round64_int[of "int n"] by (simp add: num_of_nat_def)

lemma scaled_floor:
  assumes n: "n < 2 ^ 52" and c: "lit r = Fin c" "1 / 16 \<le> c" "c \<le> 1"
  shows "\<exists>f::int. math_floor (js_mul (num_of_nat n) (lit r)) = Fin (of_int f) \<and> 0 \<le> f \<and>
           of_int f \<le> of_nat n * c * (1 + 1 / 2 ^ 53) \<and>
           of_nat n * c * (1 - 1 / 2 ^ 53) - 1 < of_int f"
proof (cases "n = 0")
  case True
  have "math_floor (js_mul (num_of_nat 0) (lit r)) = Fin (of_int 0)"
    by (simp add: num_of_nat_def round64_def c(1))
  then show ?thesis using True by (intro exI[of _ 0]) simp
next
  case False
  define x where "x = of_nat n * c"
  have n1: "(1::rat) \<le> of_nat n" using False by simp
  have n2: "(of_nat n :: rat) < 2 ^ 52" using n by (metis of_nat_less_iff of_nat_numeral of_nat_power)
  have "1 / 16 \<le> 1 * c" using c(2) by simp
  also have "\<dots> \<le> of_nat n * c" using n1 c(2) by (intro mult_right_mono) simp_all
  finally have x1: "1 / 16 \<le> x" by (simp add: x_def)
  have "x \<le> of_nat n * 1" unfolding x_def using c(3) by (intro mult_left_mono) simp_all
  then have x2: "x < 2 ^ 52" using n2 by simp
  have lo: "1 / 2 ^ 1022 \<le> x" using x1 by (rule order_trans[rotated]) simp
  have hi: "x < 2 ^ 1023" using x2 by (rule less_trans) simp
  obtain y where y: "round64 x = Fin y" "\<bar>y - x\<bar> \<le> x / 2 ^ 53"
    using round64_error[OF lo hi] by blast
  have "num_of_nat n = Fin (of_nat n)" using n by (intro num_of_nat_exact) simp
  then have m: "math_floor (js_mul (num_of_nat n) (lit r)) = Fin (of_int \<lfloor>y\<rfloor>)"
    by (simp add: c(1) y(1) x_def[symmetric])
  have "y - x \<le> x / 2 ^ 53" "- (y - x) \<le> x / 2 ^ 53" using y(2) abs_le_iff by blast+
  then have yl: "x - x / 2 ^ 53 \<le> y" "y \<le> x + x / 2 ^ 53" by linarith+
  have e1: "x * (1 - 1 / 2 ^ 53) = x - x / 2 ^ 53" "x * (1 + 1 / 2 ^ 53) = x + x / 2 ^ 53"
    by (simp_all add: algebra_simps)
  have yb: "x * (1 - 1 / 2 ^ 53) \<le> y" "y \<le> x * (1 + 1 / 2 ^ 53)"
    using yl by (simp_all only: e1)
  have "x / 2 ^ 53 \<le> x" using x1 by (simp add: field_simps)
  then have y0: "0 \<le> y" using yl(1) by linarith
  have f1: "of_int \<lfloor>y\<rfloor> \<le> y" "y - 1 < of_int \<lfloor>y\<rfloor>" by linarith+
  show ?thesis
  proof (intro exI[of _ "\<lfloor>y\<rfloor>"] conjI)
    show "math_floor (js_mul (num_of_nat n) (lit r)) = Fin (of_int \<lfloor>y\<rfloor>)" by (rule m)
    show "0 \<le> \<lfloor>y\<rfloor>" using y0 by simp
    show "of_int \<lfloor>y\<rfloor> \<le> of_nat n * c * (1 + 1 / 2 ^ 53)"
      using f1(1) yb(2) unfolding x_def by linarith
    show "of_nat n * c * (1 - 1 / 2 ^ 53) - 1 < of_int \<lfloor>y\<rfloor>"
      using f1(2) yb(1) unfolding x_def by linarith
  qed
qed

lemma lit_15: "lit (15 / 100) = Fin (5404319552844595 / 36028797018963968)" by code_simp
lemma lit_12: "lit (12 / 100) = Fin (1080863910568919 / 9007199254740992)" by code_simp
lemma lit_25: "lit (25 / 100) = Fin (1 / 4)" by code_simp
lemma lit_35: "lit (35 / 100) = Fin (3152519739159347 / 9007199254740992)" by code_simp
lemma lit_13: "lit (13 / 100) = Fin (1170935903116329 / 9007199254740992)" by code_simp

lemma estimate_sizes:
  assumes n: "n < 2 ^ 52"
  shows "\<exists>f0 f1 f2 f3 f4 :: int.
           math_floor (js_mul (num_of_nat n) (lit (15 / 100))) = Fin (of_int f0) \<and>
           math_floor (js_mul (num_of_nat n) (lit (12 / 100))) = Fin (of_int f1) \<and>
           math_floor (js_mul (num_of_nat n) (lit (25 / 100))) = Fin (of_int f2) \<and>
           math_floor (js_mul (num_of_nat n) (lit (35 / 100))) = Fin (of_int f3) \<and>
           math_floor (js_mul (num_of_nat n) (lit (13 / 100))) = Fin (of_int f4) \<and>
           0 \<le> f0 \<and> 0 \<le> f1 \<and> 0 \<le> f2 \<and> 0 \<le> f3 \<and> 0 \<le> f4 \<and>
           int n - 5 \<le> f0 + f1 + f2 + f3 + f4 \<and> f0 + f1 + f2 + f3 + f4 \<le> int n"
proof -
  have "\<exists>f::int. math_floor (js_mul (num_of_nat n) (lit (15 / 100))) = Fin (of_int f) \<and> 0 \<le> f \<and>
           (of_int f :: rat) \<le> of_nat n * (5404319552844595 / 36028797018963968) * (1 + 1 / 2 ^ 53) \<and>
           of_nat n * (5404319552844595 / 36028797018963968) * (1 - 1 / 2 ^ 53) - 1 < (of_int f :: rat)"
    by (rule scaled_floor[OF n lit_15]) simp_all
  then obtain f0 :: int where f0:
      "math_floor (js_mul (num_of_nat n) (lit (15 / 100))) = Fin (of_int f0)" "0 \<le> f0"
      "(of_int f0 :: rat) \<le> of_nat n * (5404319552844595 / 36028797018963968) * (1 + 1 / 2 ^ 53)"
      "of_nat n * (5404319552844595 / 36028797018963968) * (1 - 1 / 2 ^ 53) - 1 < (of_int f0 :: rat)"
    by blast
  have "\<exists>f::int. math_floor (js_mul (num_of_nat n) (lit (12 / 100))) = Fin (of_int f) \<and> 0 \<le> f \<and>
           (of_int f :: rat) \<le> of_nat n * (1080863910568919 / 9007199254740992) * (1 + 1 / 2 ^ 53) \<and>
           of_nat n * (1080863910568919 / 9007199254740992) * (1 - 1 / 2 ^ 53) - 1 < (of_int f :: rat)"
    by (rule scaled_floor[OF n lit_12]) simp_all
  then obtain f1 :: int where f1:
      "math_floor (js_mul (num_of_nat n) (lit (12 / 100))) = Fin (of_int f1)" "0 \<le> f1"
      "(of_int f1 :: rat) \<le> of_nat n * (1080863910568919 / 9007199254740992) * (1 + 1 / 2 ^ 53)"
      "of_nat n * (1080863910568919 / 9007199254740992) * (1 - 1 / 2 ^ 53) - 1 < (of_int f1 :: rat)"
    by blast
  have "\<exists>f::int. math_floor (js_mul (num_of_nat n) (lit (25 / 100))) = Fin (of_int f) \<and> 0 \<le> f \<and>
           (of_int f :: rat) \<le> of_nat n * (1 / 4) * (1 + 1 / 2 ^ 53) \<and>
           of_nat n * (1 / 4) * (1 - 1 / 2 ^ 53) - 1 < (of_int f :: rat)"
    by (rule scaled_floor[OF n lit_25]) simp_all
  then obtain f2 :: int where f2:
      "math_floor (js_mul (num_of_nat n) (lit (25 / 100))) = Fin (of_int f2)" "0 \<le> f2"
      "(of_int f2 :: rat) \<le> of_nat n * (1 / 4) * (1 + 1 / 2 ^ 53)"
      "of_nat n * (1 / 4) * (1 - 1 / 2 ^ 53) - 1 < (of_int f2 :: rat)"
    by blast
  have "\<exists>f::int. math_floor (js_mul (num_of_nat n) (lit (35 / 100))) = Fin (of_int f) \<and> 0 \<le> f \<and>
           (of_int f :: rat) \<le> of_nat n * (3152519739159347 / 9007199254740992) * (1 + 1 / 2 ^ 53) \<and>
           of_nat n * (3152519739159347 / 9007199254740992) * (1 - 1 / 2 ^ 53) - 1 < (of_int f :: rat)"
    by (rule scaled_floor[OF n lit_35]) simp_all
  then obtain f3 :: int where f3:
      "math_floor (js_mul (num_of_nat n) (lit (35 / 100))) = Fin (of_int f3)" "0 \<le> f3"
      "(of_int f3 :: rat) \<le> of_nat n * (3152519739159347 / 9007199254740992) * (1 + 1 / 2 ^ 53)"
      "of_nat n * (3152519739159347 / 9007199254740992) * (1 - 1 / 2 ^ 53) - 1 < (of_int f3 :: rat)"
    by blast
  have "\<exists>f::int. math_floor (js_mul (num_of_nat n) (lit (13 / 100))) = Fin (of_int f) \<and> 0 \<le> f \<and>
           (of_int f :: rat) \<le> of_nat n * (1170935903116329 / 9007199254740992) * (1 + 1 / 2 ^ 53) \<and>
           of_nat n * (1170935903116329 / 9007199254740992) * (1 - 1 / 2 ^ 53) - 1 < (of_int f :: rat)"
    by (rule scaled_floor[OF n lit_13]) simp_all
  then obtain f4 :: int where f4:
      "math_floor (js_mul (num_of_nat n) (lit (13 / 100))) = Fin (of_int f4)" "0 \<le> f4"
      "(of_int f4 :: rat) \<le> of_nat n * (1170935903116329 / 9007199254740992) * (1 + 1 / 2 ^ 53)"
      "of_nat n * (1170935903116329 / 9007199254740992) * (1 - 1 / 2 ^ 53) - 1 < (of_int f4 :: rat)"
    by blast
  have n2: "(of_nat n :: rat) < 2 ^ 52" using n by (metis of_nat_less_iff of_nat_numeral of_nat_power)
  have n0: "(0::rat) \<le> of_nat n" by simp
  have "(of_int (f0 + f1 + f2 + f3 + f4) :: rat) < of_nat n + 1"
    using f0(3) f1(3) f2(3) f3(3) f4(3) n2 n0 by simp
  then have "(of_int (f0 + f1 + f2 + f3 + f4) :: rat) < of_int (int n + 1)" by simp
  then have up: "f0 + f1 + f2 + f3 + f4 < int n + 1" by (simp only: of_int_less_iff)
  have "(of_nat n :: rat) - 6 < of_int (f0 + f1 + f2 + f3 + f4)"
    using f0(4) f1(4) f2(4) f3(4) f4(4) n2 n0 by simp
  then have "(of_int (int n - 6) :: rat) < of_int (f0 + f1 + f2 + f3 + f4)" by simp
  then have dn: "int n - 6 < f0 + f1 + f2 + f3 + f4" by (simp only: of_int_less_iff)
  have s: "int n - 5 \<le> f0 + f1 + f2 + f3 + f4" "f0 + f1 + f2 + f3 + f4 \<le> int n"
    using up dn by linarith+
  show ?thesis
    using f0(1,2) f1(1,2) f2(1,2) f3(1,2) f4(1,2) s by blast
qed

section \<open>The performance score\<close>

lemma small_sub:
  assumes "0 \<le> s" "s \<le> 200" "0 \<le> d" "d \<le> 30"
  shows "js_sub (Fin (of_int s)) (Fin (of_int d)) = Fin (of_int (s - d))"
  using assms by (intro js_sub_int) auto

lemma sizePenalty_int:
  assumes "0 \<le> s" "s \<le> 200"
  shows "\<exists>d. 0 \<le> d \<and> d \<le> 30 \<and> sizePenalty t (Fin (of_int s)) = Fin (of_int (s - d))"
proof -
  have "\<exists>d\<in>{0, 10, 20, 30}. sizePenalty t (Fin (of_int s)) = Fin (of_int (s - d))"
    using small_sub[OF assms, of 30] small_sub[OF assms, of 20] small_sub[OF assms, of 10]
    by (auto simp: sizePenalty_def)
  then show ?thesis by fastforce
qed

lemma compressionPenalty_int:
  assumes "0 \<le> s" "s \<le> 200"
  shows "\<exists>d. 0 \<le> d \<and> d \<le> 15 \<and>
           compressionPenalty t g (Fin (of_int s)) = Fin (of_int (s - d))"
proof -
  have "\<exists>d\<in>{0, 5, 15}. compressionPenalty t g (Fin (of_int s)) = Fin (of_int (s - d))"
    using small_sub[OF assms, of 15] small_sub[OF assms, of 5]
    by (auto simp: compressionPenalty_def Let_def)
  then show ?thesis by fastforce
qed

lemma moduleCountPenalty_int:
  assumes "0 \<le> s" "s \<le> 200"
  shows "\<exists>d. 0 \<le> d \<and> d \<le> 15 \<and>
           moduleCountPenalty n (Fin (of_int s)) = Fin (of_int (s - d))"
proof -
  have "\<exists>d\<in>{0, 5, 10, 15}. moduleCountPenalty n (Fin (of_int s)) = Fin (of_int (s - d))"
    using small_sub[OF assms, of 15] small_sub[OF assms, of 10] small_sub[OF assms, of 5]
    by (auto simp: moduleCountPenalty_def)
  then show ?thesis by fastforce
qed

lemma externalPenalty_int:
  assumes "0 \<le> s" "s \<le> 200"
  shows "\<exists>d. 0 \<le> d \<and> d \<le> 10 \<and>
           externalPenalty n (Fin (of_int s)) = Fin (of_int (s - d))"
proof -
  have "\<exists>d\<in>{0, 5, 10}. externalPenalty n (Fin (of_int s)) = Fin (of_int (s - d))"
    using small_sub[OF assms, of 10] small_sub[OF assms, of 5]
    by (auto simp: externalPenalty_def)
  then show ?thesis by fastforce
qed

lemma chunkBonus_int:
  assumes "0 \<le> s" "s \<le> 200"
  shows "\<exists>d. 0 \<le> d \<and> d \<le> 10 \<and> chunkBonus n (Fin (of_int s)) = Fin (of_int (s + d))"
proof (cases "1 < n")
  case True
  have "js_add (Fin (of_int s)) (Fin (of_int 10)) = Fin (of_int (s + 10))"
    using assms by (intro js_add_int) simp
  then show ?thesis using True by (intro exI[of _ 10]) (simp add: chunkBonus_def)
next
  case False
  then show ?thesis by (intro exI[of _ 0]) (simp add: chunkBonus_def)
qed

lemma rawScore_range: "\<exists>k::int. rawScore b = Fin (of_int k) \<and> 30 \<le> k \<and> k \<le> 110"
proof -
  obtain d1 where d1: "0 \<le> d1" "d1 \<le> 30"
      "sizePenalty (bd_totalSize b) (Fin (of_int 100)) = Fin (of_int (100 - d1))"
    using sizePenalty_int[of 100 "bd_totalSize b"] by force
  have r1: "0 \<le> 100 - d1" "100 - d1 \<le> 200" using d1 by linarith+
  obtain d2 where d2: "0 \<le> d2" "d2 \<le> 15"
      "compressionPenalty (bd_totalSize b) (bd_totalGzipSize b) (Fin (of_int (100 - d1)))
         = Fin (of_int (100 - d1 - d2))"
    using compressionPenalty_int[OF r1] by blast
  have r2: "0 \<le> 100 - d1 - d2" "100 - d1 - d2 \<le> 200" using d1 d2 by linarith+
  obtain d3 where d3: "0 \<le> d3" "d3 \<le> 15"
      "moduleCountPenalty (length (bd_modules b)) (Fin (of_int (100 - d1 - d2)))
         = Fin (of_int (100 - d1 - d2 - d3))"
    using moduleCountPenalty_int[OF r2] by blast
  have r3: "0 \<le> 100 - d1 - d2 - d3" "100 - d1 - d2 - d3 \<le> 200" using d1 d2 d3 by linarith+
  obtain d4 where d4: "0 \<le> d4" "d4 \<le> 10"
      "externalPenalty (length (filter mod_isExternal (bd_modules b)))
         (Fin (of_int (100 - d1 - d2 - d3))) = Fin (of_int (100 - d1 - d2 - d3 - d4))"
    using externalPenalty_int[OF r3] by blast
  have r4: "0 \<le> 100 - d1 - d2 - d3 - d4" "100 - d1 - d2 - d3 - d4 \<le> 200"
    using d1 d2 d3 d4 by linarith+
  obtain d5 where d5: "0 \<le> d5" "d5 \<le> 10"
      "chunkBonus (length (bd_chunks b)) (Fin (of_int (100 - d1 - d2 - d3 - d4)))
         = Fin (of_int (100 - d1 - d2 - d3 - d4 + d5))"
    using chunkBonus_int[OF r4] by blast
  have h: "Fin 100 = Fin (of_int 100)" by simp
  have "rawScore b = Fin (of_int (100 - d1 - d2 - d3 - d4 + d5))"
    unfolding rawScore_def Let_def h by (simp only: d1(3) d2(3) d3(3) d4(3) d5(3))
  moreover have "30 \<le> 100 - d1 - d2 - d3 - d4 + d5" "100 - d1 - d2 - d3 - d4 + d5 \<le> 110"
    using d1 d2 d3 d4 d5 by linarith+
  ultimately show ?thesis by blast
qed

lemma score_clamp:
  "calculatePerformanceScore b = math_max (Fin 0) (math_min (Fin 100) (math_round (rawScore b)))"
  by (simp add: calculatePerformanceScore_def)

lemma math_round_int: "math_round (Fin (of_int k)) = Fin (of_int k)"
proof -
  have "\<lfloor>(of_int k :: rat) + 1 / 2\<rfloor> = k" by (rule floor_unique) auto
  then show ?thesis by simp
qed

lemma clamp_int:
  "math_max (Fin 0) (math_min (Fin 100) (math_round (Fin (of_int k))))
     = Fin (of_int (max 0 (min 100 k)))"
  by (auto simp: math_round_int math_max_def math_min_def simp del: math_round.simps)

text \<open>
  C2: whatever the aggregate holds, the performance score is an integer between 0 and 100.
\<close>

theorem performanceScore_range:
  "\<exists>k::int. calculatePerformanceScore b = Fin (of_int k) \<and> 0 \<le> k \<and> k \<le> 100"
proof -
  obtain k :: int where "rawScore b = Fin (of_int k)" using rawScore_range by blast
  then have "calculatePerformanceScore b = Fin (of_int (max 0 (min 100 k)))"
    by (simp only: score_clamp clamp_int)
  moreover have "0 \<le> max 0 (min 100 k)" "max 0 (min 100 k) \<le> 100" by auto
  ultimately show ?thesis by blast
qed

text \<open>
  C10: the penalties add up to at most 70, so the value that reaches the final clamp is
  already at least 30, the lower clamp at 0 leaves it unchanged, and the score returned is at
  least 30.
\<close>

theorem performanceScore_at_least_30:
  "\<exists>k::int. rawScore b = Fin (of_int k) \<and> 30 \<le> k \<and>
     calculatePerformanceScore b = math_min (Fin 100) (math_round (rawScore b)) \<and>
     calculatePerformanceScore b = Fin (of_int (min 100 k))"
proof -
  obtain k :: int where k: "rawScore b = Fin (of_int k)" "30 \<le> k"
    using rawScore_range by blast
  have "calculatePerformanceScore b = Fin (of_int (max 0 (min 100 k)))"
    by (simp only: score_clamp clamp_int k)
  moreover have "max 0 (min 100 k) = min 100 k" using k(2) by auto
  ultimately have c: "calculatePerformanceScore b = Fin (of_int (min 100 k))" by simp
  have "math_min (Fin 100) (math_round (Fin (of_int k))) = Fin (of_int (min 100 k))"
    by (auto simp: math_round_int math_min_def simp del: math_round.simps)
  then have m: "math_min (Fin 100) (math_round (rawScore b)) = Fin (of_int (min 100 k))"
    by (simp only: k(1))
  show ?thesis
  proof (intro exI conjI)
    show "rawScore b = Fin (of_int k)" by (rule k(1))
    show "30 \<le> k" by (rule k(2))
    show "calculatePerformanceScore b = math_min (Fin 100) (math_round (rawScore b))"
      by (simp only: c m)
    show "calculatePerformanceScore b = Fin (of_int (min 100 k))" by (rule c)
  qed
qed

text \<open>
  C5, as stated: an aggregate of 1,572,864 bytes with 250 modules, 35 of them external,
  and one chunk scores 45. It does not when its compressed size is half its size: the
  compression penalty takes another 15.
\<close>

theorem score_example_counterexample:
  "bd_totalSize (sampleAggregate (Fin 1572864) (Fin 786432) 35 215 1) = Fin 1572864 \<and>
   length (bd_modules (sampleAggregate (Fin 1572864) (Fin 786432) 35 215 1)) = 250 \<and>
   length (filter mod_isExternal
     (bd_modules (sampleAggregate (Fin 1572864) (Fin 786432) 35 215 1))) = 35 \<and>
   length (bd_chunks (sampleAggregate (Fin 1572864) (Fin 786432) 35 215 1)) = 1 \<and>
   calculatePerformanceScore (sampleAggregate (Fin 1572864) (Fin 786432) 35 215 1) = Fin 30"
  by code_simp

lemma js_lt_trans: "js_lt a b \<Longrightarrow> js_lt b c \<Longrightarrow> js_lt a c"
  by (cases a; cases b; cases c) auto

lemma lit_03_lt_04: "js_lt (lit (3 / 10)) (lit (4 / 10))"
  by code_simp

lemma gt_04_gt_03: "js_gt r (lit (4 / 10)) \<Longrightarrow> js_gt r (lit (3 / 10))"
  unfolding js_gt_def using lit_03_lt_04 by (rule js_lt_trans)

lemma compressionPenalty_none:
  assumes "\<not> (truthy g \<and> js_gt (js_div g t) (lit (3 / 10)))"
  shows "compressionPenalty t g s = s"
proof (cases "truthy g \<and> js_gt t (Fin 0)")
  case True
  then have n3: "\<not> js_gt (js_div g t) (lit (3 / 10))" using assms by blast
  then have n4: "\<not> js_gt (js_div g t) (lit (4 / 10))" using gt_04_gt_03 by blast
  show ?thesis
    unfolding compressionPenalty_def Let_def by (simp only: n3 n4 if_False if_cancel)
next
  case False
  show ?thesis unfolding compressionPenalty_def by (simp only: False if_False)
qed

lemma over_mib: "js_gt (Fin 1572864) (js_mul (Fin 1024) (Fin 1024))"
  by code_simp

lemma sub_100_30: "js_sub (Fin 100) (Fin 30) = Fin 70"
  by code_simp

lemma sub_70_15: "js_sub (Fin 70) (Fin 15) = Fin 55"
  by code_simp

lemma sub_55_10: "js_sub (Fin 55) (Fin 10) = Fin 45"
  by code_simp

text \<open>
  C5, amended: the same aggregate scores 45 when its compressed size is zero or at most
  three tenths of its size, so that no compression penalty applies.
\<close>

theorem score_example:
  assumes "bd_totalSize b = Fin 1572864"
    and "length (bd_modules b) = 250"
    and "length (filter mod_isExternal (bd_modules b)) = 35"
    and "length (bd_chunks b) = 1"
    and "\<not> (truthy (bd_totalGzipSize b) \<and>
            js_gt (js_div (bd_totalGzipSize b) (bd_totalSize b)) (lit (3 / 10)))"
  shows "calculatePerformanceScore b = Fin 45"
proof -
  have s: "sizePenalty (bd_totalSize b) (Fin 100) = Fin 70"
    unfolding sizePenalty_def assms(1) by (simp only: over_mib if_True sub_100_30)
  have c: "compressionPenalty (bd_totalSize b) (bd_totalGzipSize b) (Fin 70) = Fin 70"
    using assms(5) by (rule compressionPenalty_none)
  have m: "moduleCountPenalty 250 (Fin 70) = Fin 55"
    unfolding moduleCountPenalty_def by (simp add: sub_70_15)
  have e: "externalPenalty 35 (Fin 55) = Fin 45"
    unfolding externalPenalty_def by (simp add: sub_55_10)
  have k: "chunkBonus 1 (Fin 45) = Fin 45"
    by (simp add: chunkBonus_def)
  have r: "rawScore b = Fin (of_int 45)"
    unfolding rawScore_def Let_def assms(2,3,4) s c m e k by simp
  show ?thesis
    unfolding calculatePerformanceScore_def r clamp_int by simp
qed

theorem score_example_witness:
  "calculatePerformanceScore (sampleAggregate (Fin 1572864) (Fin 400000) 35 215 1) = Fin 45"
  by (rule score_example) (code_simp+)

section \<open>The lexical analyzer\<close>

lemma analyzeFile_fresh: "analyzeFile content this = analyzeFile content newJavaScriptAnalyzer"
proof -
  have "this\<lparr>an_content := content, an_lines := str_split content nl,
              an_analysis := createEmptyAnalysis\<rparr>
        = newJavaScriptAnalyzer\<lparr>an_content := content, an_lines := str_split content nl,
              an_analysis := createEmptyAnalysis\<rparr>"
    by (cases this) (simp add: newJavaScriptAnalyzer_def)
  then show ?thesis by (simp only: analyzeFile_def)
qed

text \<open>
  C7: the analysis of a text does not depend on the analyzer object it runs on, so two
  invocations on the same text return the same record (and leave the same object),
  whatever was analyzed before.
\<close>

theorem analyzeFile_deterministic:
  "analyzeFile content this = analyzeFile content this' \<and>
   fst (analyzeFile content (snd (analyzeFile earlier this))) = fst (analyzeFile content this')"
  using analyzeFile_fresh[of content this] analyzeFile_fresh[of content this']
    analyzeFile_fresh[of content "snd (analyzeFile earlier this)"]
  by simp

lemma confidence_analyzeFile:
  "ja_confidence (fst (analyzeFile content this)) =
   ja_confidence (an_analysis (detectFileType
     \<lparr>an_content = content, an_lines = str_split content nl,
      an_analysis = createEmptyAnalysis\<rparr>))"
proof -
  have e: "this\<lparr>an_content := content, an_lines := str_split content nl,
              an_analysis := createEmptyAnalysis\<rparr>
        = \<lparr>an_content = content, an_lines = str_split content nl,
           an_analysis = createEmptyAnalysis\<rparr>"
    by (cases this) simp
  show ?thesis
    unfolding analyzeFile_def Let_def e
    by (simp add: analyzerInsights_def Let_def calculateMetrics_def
        detectLibraries_def analyzeExports_def analyzeImports_def analyzeClasses_def
        analyzeFunctions_def)
qed

lemma confidence_amd:
  "ja_confidence (an_analysis (detectFileType
     \<lparr>an_content = concat (replicate 23 ''AMD''),
      an_lines = str_split (concat (replicate 23 ''AMD'')) nl,
      an_analysis = createEmptyAnalysis\<rparr>)) = Fin 103"
  by code_simp

text \<open>
  C8: the confidence is the rounded maximal score times 100 and is not clamped: on the
  text that repeats \<open>AMD\<close> 23 times the analyzer reports 103.
\<close>

theorem confidence_exceeds_100:
  "ja_confidence (fst (analyzeFile (concat (replicate 23 ''AMD'')) this)) = Fin 103 \<and>
   js_gt (ja_confidence (fst (analyzeFile (concat (replicate 23 ''AMD'')) this))) (Fin 100)"
  by (simp only: confidence_analyzeFile confidence_amd) (simp add: js_gt_def)

section \<open>The performance-tier rule\<close>

lemma sizeTier_id: "ins_id (sizeTierInsight h totalSize) \<in> set sizeTierIds"
  by (simp add: sizeTierInsight_def sizeTierIds_def)

lemma tier_ids:
  "map ins_id (generatePerformanceInsights h totalSize totalGzipSize) =
     (if js_gt (fast3GTimeOf totalSize) (Fin 3) then [''slow-3g-load''] else [])
     @ (if js_lt (compressionRatioOf totalSize totalGzipSize) (Fin 30)
        then [''poor-compression''] else [])
     @ [ins_id (sizeTierInsight h totalSize)]"
  by (simp add: generatePerformanceInsights_def Let_def)

lemma example_fast3G: "\<not> js_gt (fast3GTimeOf (Fin 400000)) (Fin 3)"
  by code_simp

lemma example_ratio: "js_lt (compressionRatioOf (Fin 400000) (Fin 350000)) (Fin 30)"
  by code_simp

lemma example_mib: "\<not> js_gt (Fin 400000) (js_mul (Fin 1024) (Fin 1024))"
  by code_simp

lemma example_half_mib: "\<not> js_gt (Fin 400000) (js_mul (Fin 500) (Fin 1024))"
  by code_simp

lemma example_tier: "ins_id (sizeTierInsight h (Fin 400000)) = ''good-bundle-size''"
  unfolding sizeTierInsight_def by (simp only: example_mib example_half_mib if_False) simp

lemma example_ids:
  "map ins_id (generatePerformanceInsights h (Fin 400000) (Fin 350000)) =
     [''poor-compression'', ''good-bundle-size'']"
  unfolding tier_ids by (simp only: example_fast3G example_ratio example_tier if_True if_False) simp

text \<open>
  C3, as stated: for a total of 400,000 bytes that compress to 350,000 the rule emits the
  poor-compression warning and no size-tier insight. It emits both.
\<close>

theorem performance_tier_counterexample:
  "map ins_id (generatePerformanceInsights (sampleHost []) (Fin 400000) (Fin 350000)) =
     [''poor-compression'', ''good-bundle-size''] \<and>
   ''good-bundle-size'' \<in> set sizeTierIds"
  by (simp only: example_ids) (simp add: sizeTierIds_def)

text \<open>
  C3, amended: the rule emits the fast-3G warning when the fast-3G load time exceeds 3
  seconds, the poor-compression warning when the compression ratio is below 30, each
  whether or not the other is emitted, and then always exactly one size-tier insight; for
  400,000 bytes that compress to 350,000 these are the poor-compression warning and the
  good-bundle-size insight.
\<close>

theorem performance_tier:
  "map ins_id (generatePerformanceInsights h totalSize totalGzipSize) =
     (if js_gt (fast3GTimeOf totalSize) (Fin 3) then [''slow-3g-load''] else [])
     @ (if js_lt (compressionRatioOf totalSize totalGzipSize) (Fin 30)
        then [''poor-compression''] else [])
     @ [ins_id (sizeTierInsight h totalSize)] \<and>
   ins_id (sizeTierInsight h totalSize) =
     (if js_gt totalSize (js_mul (Fin 1024) (Fin 1024)) then ''large-bundle-performance''
      else if js_gt totalSize (js_mul (Fin 500) (Fin 1024)) then ''medium-bundle-performance''
      else ''good-bundle-size'') \<and>
   length (filter (\<lambda>i. ins_id i \<in> set sizeTierIds)
     (generatePerformanceInsights h totalSize totalGzipSize)) = 1 \<and>
   map ins_id (generatePerformanceInsights h (Fin 400000) (Fin 350000)) =
     [''poor-compression'', ''good-bundle-size'']"
proof (intro conjI)
  show "map ins_id (generatePerformanceInsights h totalSize totalGzipSize) =
     (if js_gt (fast3GTimeOf totalSize) (Fin 3) then [''slow-3g-load''] else [])
     @ (if js_lt (compressionRatioOf totalSize totalGzipSize) (Fin 30)
        then [''poor-compression''] else [])
     @ [ins_id (sizeTierInsight h totalSize)]"
    by (rule tier_ids)
  show "ins_id (sizeTierInsight h totalSize) =
     (if js_gt totalSize (js_mul (Fin 1024) (Fin 1024)) then ''large-bundle-performance''
      else if js_gt totalSize (js_mul (Fin 500) (Fin 1024)) then ''medium-bundle-performance''
      else ''good-bundle-size'')"
    by (simp add: sizeTierInsight_def)
  have "length (filter (\<lambda>i. i \<in> set sizeTierIds)
          (map ins_id (generatePerformanceInsights h totalSize totalGzipSize))) = 1"
    unfolding tier_ids using sizeTier_id[of h totalSize] by (simp add: sizeTierIds_def)
  then show "length (filter (\<lambda>i. ins_id i \<in> set sizeTierIds)
     (generatePerformanceInsights h totalSize totalGzipSize)) = 1"
    by (simp add: filter_map comp_def)
  show "map ins_id (generatePerformanceInsights h (Fin 400000) (Fin 350000)) =
     [''poor-compression'', ''good-bundle-size'']"
    by (rule example_ids)
qed

section \<open>Ingestion\<close>

lemma modules_generateInsights: "ba_modules (generateInsights h x) = ba_modules x"
  by (simp add: generateInsights_def analyzePerformance_def analyzeDuplicates_def
      analyzeTreeShakingPotential_def analyzeCodeSplittingOpportunities_def
      analyzeLargeDependencies_def generateBasicInsights_def Let_def)

text \<open>
  C1, as stated: the compressed total counts a module's \<open>gzipSize\<close> whenever it is
  present. A stats entry of 100 bytes with \<open>"gzipSize": 0\<close> is counted as 30.
\<close>

theorem totals_counterexample:
  "map mod_gzipSize (bd_modules (ingest (sampleHost sampleTable) [zeroGzipFile])) = [Some (Fin 0)] \<and>
   bd_totalGzipSize (ingest (sampleHost sampleTable) [zeroGzipFile]) = Fin 30 \<and>
   claimedGzipSum (bd_modules (ingest (sampleHost sampleTable) [zeroGzipFile])) = Fin 0"
  by code_simp

text \<open>
  C1, amended: for every list of files, \<open>totalSize\<close> is the sum of the sizes of the
  modules of the aggregate, and \<open>totalGzipSize\<close> the sum over them of the \<open>gzipSize\<close>
  when it is present and neither 0 nor NaN, and otherwise of 0.3 times the size (the sums
  taken from the left in the arithmetic of the program); both are 0 for no file.
\<close>

theorem totals_are_sums:
  "bd_totalSize (fst (analyzeFiles h files this)) =
     foldl (\<lambda>sum m. js_add sum (mod_size m)) (Fin 0)
       (bd_modules (fst (analyzeFiles h files this))) \<and>
   bd_totalGzipSize (fst (analyzeFiles h files this)) =
     foldl (\<lambda>sum m. js_add sum
              (case mod_gzipSize m of
                 Some g \<Rightarrow> if truthy g then g else js_mul (mod_size m) (lit (3 / 10))
               | None \<Rightarrow> js_mul (mod_size m) (lit (3 / 10))))
       (Fin 0) (bd_modules (fst (analyzeFiles h files this))) \<and>
   bd_modules (fst (analyzeFiles h [] this)) = [] \<and>
   bd_totalSize (fst (analyzeFiles h [] this)) = Fin 0 \<and>
   bd_totalGzipSize (fst (analyzeFiles h [] this)) = Fin 0"
proof -
  have g: "gzipOrEstimate = (\<lambda>m. case mod_gzipSize m of
                 Some g \<Rightarrow> if truthy g then g else js_mul (mod_size m) (lit (3 / 10))
               | None \<Rightarrow> js_mul (mod_size m) (lit (3 / 10)))"
    by (rule ext) (simp add: gzipOrEstimate_def or_num_def)
  show ?thesis
    by (simp add: analyzeFiles_def Let_def sumSizes_def sumGzipSizes_def g
        modules_generateInsights processFiles_def)
qed

text \<open>
  C4: two stats files whose entries carry no id both get the module id \<open>module-0\<close>, and
  the two large-dependency insights of the run share the id \<open>large-dep-module-0\<close>.
\<close>

theorem insight_ids_collide:
  "map ins_id (bd_insights (ingest (sampleHost sampleTable) [bigFileA, bigFileB])) =
     [''bundle-composition'', ''compression-efficiency'', ''module-count-low'',
      ''good-bundle-size'', ''large-dep-module-0'', ''large-dep-module-0''] \<and>
   \<not> distinct (map ins_id (bd_insights (ingest (sampleHost sampleTable) [bigFileA, bigFileB])))"
  by code_simp

lemma processFile_fails:
  assumes "failsProcessing h f"
  shows "processFile h f this = this"
proof (cases "file_text f")
  case None
  then show ?thesis
    by (simp add: processFile_def Let_def processWebpackBundle_def processSourceMap_def
        tryParseAsWebpackBundle_def processJavaScriptFile_def)
next
  case (Some content)
  with assms have e: "toLowerCase (extension (file_name f)) \<in> {''json'', ''map''}"
    and p: "parseJSON h content = None"
    by (simp_all add: failsProcessing_def)
  from e consider "toLowerCase (extension (file_name f)) = ''json''"
    | "toLowerCase (extension (file_name f)) = ''map''" by auto
  then show ?thesis
  proof cases
    case 1
    then show ?thesis by (simp add: processFile_def Let_def processWebpackBundle_def Some p)
  next
    case 2
    then show ?thesis by (simp add: processFile_def Let_def processSourceMap_def Some p)
  qed
qed

lemma processFiles_skip:
  assumes "failsProcessing h f"
  shows "processFiles h (xs @ f # ys) this = processFiles h (xs @ ys) this"
  by (simp add: processFiles_def processFile_fails[OF assms])

text \<open>
  C6, as stated: the aggregate of a list with a failing file has the metadata of the
  aggregate of the list without it. The file that is not JSON is counted and typed there.
\<close>

theorem failing_file_counterexample:
  "failsProcessing (sampleHost sampleTable) brokenFile \<and>
   metadata (ingest (sampleHost sampleTable) [brokenFile, zeroGzipFile]) =
     \<lparr>analyzedAt = [], fileCount = 2, fileTypes = [''json'', ''json'']\<rparr> \<and>
   metadata (ingest (sampleHost sampleTable) [zeroGzipFile]) =
     \<lparr>analyzedAt = [], fileCount = 1, fileTypes = [''json'']\<rparr>"
  by code_simp

text \<open>
  C6, amended: when a file of the list fails (its read is rejected, or it is a \<open>.json\<close> or
  \<open>.map\<close> file that is not JSON), ingestion returns an aggregate whose modules, chunks,
  insights and totals are those of the list without the file; the metadata still count
  the file and list its extension.
\<close>

theorem failing_file_skipped:
  assumes "failsProcessing h f"
  shows "bd_modules (fst (analyzeFiles h (xs @ f # ys) this)) =
           bd_modules (fst (analyzeFiles h (xs @ ys) this)) \<and>
         bd_chunks (fst (analyzeFiles h (xs @ f # ys) this)) =
           bd_chunks (fst (analyzeFiles h (xs @ ys) this)) \<and>
         bd_insights (fst (analyzeFiles h (xs @ f # ys) this)) =
           bd_insights (fst (analyzeFiles h (xs @ ys) this)) \<and>
         bd_totalSize (fst (analyzeFiles h (xs @ f # ys) this)) =
           bd_totalSize (fst (analyzeFiles h (xs @ ys) this)) \<and>
         bd_totalGzipSize (fst (analyzeFiles h (xs @ f # ys) this)) =
           bd_totalGzipSize (fst (analyzeFiles h (xs @ ys) this)) \<and>
         fileCount (metadata (fst (analyzeFiles h (xs @ f # ys) this))) =
           Suc (fileCount (metadata (fst (analyzeFiles h (xs @ ys) this)))) \<and>
         fileTypes (metadata (fst (analyzeFiles h (xs @ f # ys) this))) =
           map fileTypeOf xs @ fileTypeOf f # map fileTypeOf ys"
  by (simp add: analyzeFiles_def Let_def processFiles_skip[OF assms])

theorem failing_file_skipped_witness:
  "failsProcessing (sampleHost sampleTable) brokenFile \<and>
   bd_modules (fst (analyzeFiles (sampleHost sampleTable) ([] @ brokenFile # [zeroGzipFile])
     newBundleAnalyzer)) =
   bd_modules (fst (analyzeFiles (sampleHost sampleTable) ([] @ [zeroGzipFile])
     newBundleAnalyzer))"
proof -
  have f: "failsProcessing (sampleHost sampleTable) brokenFile" by code_simp
  show ?thesis
    using f failing_file_skipped[OF f, of "[]" "[zeroGzipFile]" newBundleAnalyzer] by simp
qed

section \<open>The estimation fallback\<close>

lemma strip_prefix_Some: "strip_prefix p s = Some r \<longleftrightarrow> s = p @ r"
  by (induction p s rule: strip_prefix.induct) auto

lemma str_includes_iff: "str_includes s sub \<longleftrightarrow> (\<exists>a b. s = a @ sub @ b)"
proof (induction s)
  case Nil
  then show ?case by simp
next
  case (Cons c cs)
  show ?case
  proof (cases "strip_prefix sub (c # cs)")
    case (Some r)
    then have "c # cs = [] @ sub @ r" by (simp add: strip_prefix_Some)
    then show ?thesis using Some by (metis option.simps(5) str_includes.simps(2))
  next
    case None
    have "(\<exists>a b. c # cs = a @ sub @ b) \<longleftrightarrow> (\<exists>a b. cs = a @ sub @ b)"
    proof
      assume "\<exists>a b. c # cs = a @ sub @ b"
      then obtain a b where ab: "c # cs = a @ sub @ b" by blast
      show "\<exists>a b. cs = a @ sub @ b"
      proof (cases a)
        case Nil
        then have "strip_prefix sub (c # cs) = Some b" using ab by (simp add: strip_prefix_Some)
        then show ?thesis using None by simp
      next
        case (Cons x a')
        then show ?thesis using ab by auto
      qed
    next
      assume "\<exists>a b. cs = a @ sub @ b"
      then obtain a b where "cs = a @ sub @ b" by blast
      then have "c # cs = (c # a) @ sub @ b" by simp
      then show "\<exists>a b. c # cs = a @ sub @ b" by blast
    qed
    then show ?thesis using None Cons.IH by simp
  qed
qed

lemma marker_is_indicator:
  assumes "str_includes content ''__webpack_require__(1)''"
  shows "hasWebpackIndicators content"
proof -
  obtain a b where "content = a @ ''__webpack_require__(1)'' @ b"
    using assms str_includes_iff by blast
  then have "content = (a @ ''__'') @ ''webpack_require'' @ (''__(1)'' @ b)" by simp
  then have "str_includes content ''webpack_require''" using str_includes_iff by blast
  then show ?thesis by (simp add: hasWebpackIndicators_def)
qed

lemma processFile_estimate:
  assumes "toLowerCase (extension (file_name f)) = ''js''"
    and "file_text f = Some content"
    and "str_includes content ''__webpack_require__(1)''"
    and "moduleNamesOf content = []"
  shows "processFile h f this = this\<lparr>ba_modules := ba_modules this @ estimateBundleModules content\<rparr>"
  using assms(1,2,4) marker_is_indicator[OF assms(3)]
  by (simp add: processFile_def Let_def tryParseAsWebpackBundle_def parseCompiledWebpackBundle_def)

lemma estimate_names:
  "map mod_name (estimateBundleModules content) =
     [''React Core'', ''React DOM'', ''Application Code'', ''Dependencies'', ''Runtime'']"
  by (simp add: estimateBundleModules_def Let_def enumerate_eq_zip upt_rec)

lemma show_digits:
  "show_nat 0 = ''0''" "show_nat 1 = ''1''" "show_nat 2 = ''2''" "show_nat 3 = ''3''"
  "show_nat 4 = ''4''"
  by code_simp+

lemma show_Suc_digits:
  "show_nat (Suc 0) = ''1''" "show_nat (Suc (Suc 0)) = ''2''"
  "show_nat (Suc (Suc (Suc 0))) = ''3''" "show_nat (Suc (Suc (Suc (Suc 0)))) = ''4''"
  by code_simp+

lemma estimate_ids:
  "map mod_id (estimateBundleModules content) =
     [''estimated-0'', ''estimated-1'', ''estimated-2'', ''estimated-3'', ''estimated-4'']"
  by (simp add: estimateBundleModules_def Let_def enumerate_eq_zip upt_rec show_digits
      show_Suc_digits del: show_nat.simps)

lemma estimate_mod_sizes:
  "map mod_size (estimateBundleModules content) =
     [math_floor (js_mul (num_of_nat (length content)) (lit (15 / 100))),
      math_floor (js_mul (num_of_nat (length content)) (lit (12 / 100))),
      math_floor (js_mul (num_of_nat (length content)) (lit (25 / 100))),
      math_floor (js_mul (num_of_nat (length content)) (lit (35 / 100))),
      math_floor (js_mul (num_of_nat (length content)) (lit (13 / 100)))]"
  unfolding estimateBundleModules_def Let_def
  by (simp add: enumerate_eq_zip upt_rec del: math_floor.simps js_mul.simps)


lemma sum5:
  assumes "0 \<le> f0" "0 \<le> f1" "0 \<le> f2" "0 \<le> f3" "0 \<le> f4"
    and "f0 + f1 + f2 + f3 + f4 < 2 ^ 53"
  shows "foldl js_add (Fin 0) [Fin (of_int f0), Fin (of_int f1), Fin (of_int f2),
           Fin (of_int f3), Fin (of_int f4)] = Fin (of_int (f0 + f1 + f2 + f3 + f4))"
proof -
  have z: "Fin 0 = Fin (of_int 0)" by simp
  have a0: "js_add (Fin (of_int 0)) (Fin (of_int f0)) = Fin (of_int (0 + f0))"
    using assms by (intro js_add_int) simp
  have a1: "js_add (Fin (of_int (0 + f0))) (Fin (of_int f1)) = Fin (of_int (0 + f0 + f1))"
    using assms by (intro js_add_int) simp
  have a2: "js_add (Fin (of_int (0 + f0 + f1))) (Fin (of_int f2)) = Fin (of_int (0 + f0 + f1 + f2))"
    using assms by (intro js_add_int) simp
  have a3: "js_add (Fin (of_int (0 + f0 + f1 + f2))) (Fin (of_int f3))
              = Fin (of_int (0 + f0 + f1 + f2 + f3))"
    using assms by (intro js_add_int) simp
  have a4: "js_add (Fin (of_int (0 + f0 + f1 + f2 + f3))) (Fin (of_int f4))
              = Fin (of_int (0 + f0 + f1 + f2 + f3 + f4))"
    using assms by (intro js_add_int) simp
  have "foldl js_add (Fin 0) [Fin (of_int f0), Fin (of_int f1), Fin (of_int f2),
           Fin (of_int f3), Fin (of_int f4)] = Fin (of_int (0 + f0 + f1 + f2 + f3 + f4))"
    unfolding z by (simp only: foldl.simps a0 a1 a2 a3 a4)
  then show ?thesis by simp
qed

lemma sumSizes_map: "sumSizes xs = foldl js_add (Fin 0) (map mod_size xs)"
  by (simp add: sumSizes_def foldl_map)

lemma estimate_total:
  assumes n: "length content < 2 ^ 52"
  shows "\<exists>t::int. sumSizes (estimateBundleModules content) = Fin (of_int t) \<and>
           int (length content) - 5 \<le> t \<and> t \<le> int (length content)"
proof -
  obtain f0 f1 f2 f3 f4 :: int where f:
      "math_floor (js_mul (num_of_nat (length content)) (lit (15 / 100))) = Fin (of_int f0)"
      "math_floor (js_mul (num_of_nat (length content)) (lit (12 / 100))) = Fin (of_int f1)"
      "math_floor (js_mul (num_of_nat (length content)) (lit (25 / 100))) = Fin (of_int f2)"
      "math_floor (js_mul (num_of_nat (length content)) (lit (35 / 100))) = Fin (of_int f3)"
      "math_floor (js_mul (num_of_nat (length content)) (lit (13 / 100))) = Fin (of_int f4)"
    and p: "0 \<le> f0" "0 \<le> f1" "0 \<le> f2" "0 \<le> f3" "0 \<le> f4"
    and s: "int (length content) - 5 \<le> f0 + f1 + f2 + f3 + f4"
      "f0 + f1 + f2 + f3 + f4 \<le> int (length content)"
    using estimate_sizes[OF n] by blast
  have "int (length content) < 2 ^ 52" using n by (metis of_nat_less_iff of_nat_numeral of_nat_power)
  then have b: "f0 + f1 + f2 + f3 + f4 < 2 ^ 53" using s(2) by simp
  have "sumSizes (estimateBundleModules content) = Fin (of_int (f0 + f1 + f2 + f3 + f4))"
    unfolding sumSizes_map estimate_mod_sizes f by (rule sum5[OF p b])
  then show ?thesis using s by blast
qed

subsection \<open>What the numeric require shapes capture\<close>

text \<open>
  The equations of \<open>ms\<close> for a repetition and of \<open>scan\<close> rewrite a term to one that holds
  it again; from here on they are unfolded by hand.
\<close>

declare ms.simps(6) [simp del]
declare scan.simps [simp del]

lemma ms_SeqD:
  assumes "(c, u) \<in> set (ms (Seq a b) s)"
  shows "\<exists>c1 t c2. (c1, t) \<in> set (ms a s) \<and> (c2, u) \<in> set (ms b t) \<and> c = c1 @ c2"
proof -
  define F where "F = (\<lambda>(c1, t). map (\<lambda>(c2, u). (c1 @ c2 :: caps, u :: string)) (ms b t))"
  have "(c, u) \<in> set (concat (map F (ms a s)))" using assms by (simp only: ms.simps F_def)
  then obtain p where p: "p \<in> set (ms a s)" "(c, u) \<in> set (F p)" by auto
  obtain c1 t where ct: "p = (c1, t)" by (cases p)
  have "(c, u) \<in> (\<lambda>(c2, u). (c1 @ c2, u)) ` set (ms b t)" using p(2) by (simp add: ct F_def)
  then obtain q where q: "q \<in> set (ms b t)" "(c, u) = (\<lambda>(c2, u). (c1 @ c2, u)) q" by blast
  obtain c2 u' where cu: "q = (c2, u')" by (cases q)
  have "c = c1 @ c2" "u = u'" using q(2) by (simp_all add: cu)
  then show ?thesis using p(1) q(1) ct cu by blast
qed

lemma ms_GrpD:
  assumes "(c, t) \<in> set (ms (Grp n a) s)"
  shows "\<exists>c'. (c', t) \<in> set (ms a s) \<and> c = (n, take (length s - length t) s) # c'"
proof -
  have "(c, t) \<in> (\<lambda>(c', t'). ((n, take (length s - length t') s) # c', t')) ` set (ms a s)"
    using assms by simp
  then obtain p where p: "p \<in> set (ms a s)"
      "(c, t) = (\<lambda>(c', t'). ((n, take (length s - length t') s) # c', t')) p"
    by blast
  obtain c' t' where ct: "p = (c', t')" by (cases p)
  have "c = (n, take (length s - length t') s) # c'" "t = t'" using p(2) by (simp_all add: ct)
  then show ?thesis using p(1) ct by blast
qed

lemma ms_Chr_mem: "(c, t) \<in> set (ms (Chr x) s) \<longleftrightarrow> c = [] \<and> s = x # t"
  by (cases s) auto

lemma ms_Cls_mem: "(c, t) \<in> set (ms (Cls P) s) \<longleftrightarrow> c = [] \<and> (\<exists>x. s = x # t \<and> P x)"
  by (cases s) auto

lemma ms_str_mem: "(c, t) \<in> set (ms (str p) s) \<Longrightarrow> c = []"
proof (induction p arbitrary: c t s)
  case Nil
  then show ?case by simp
next
  case (Cons x p)
  then have "(c, t) \<in> set (ms (Seq (Chr x) (str p)) s)" by (simp only: str.simps)
  then obtain c1 t1 c2 where "(c1, t1) \<in> set (ms (Chr x) s)" "(c2, t) \<in> set (ms (str p) t1)"
      "c = c1 @ c2"
    using ms_SeqD by blast
  then show ?case using Cons.IH by (simp add: ms_Chr_mem)
qed

lemma ms_star_cls_Nil: "ms (Star (Cls P)) [] = [([], [])]"
  by (subst ms.simps(6)) simp

lemma ms_star_cls_Cons:
  "ms (Star (Cls P)) (x # xs) =
     (if P x then map (\<lambda>(c2, u). ([] @ c2, u)) (ms (Star (Cls P)) xs) else []) @ [([], x # xs)]"
  by (subst ms.simps(6)) simp

lemma ms_star_cls_mem:
  "(c, t) \<in> set (ms (Star (Cls P)) s) \<Longrightarrow> c = [] \<and> (\<exists>u. s = u @ t \<and> list_all P u)"
proof (induction s arbitrary: c t)
  case Nil
  then show ?case by (simp add: ms_star_cls_Nil)
next
  case (Cons x xs)
  from Cons.prems have
    "(c, t) = ([], x # xs) \<or> (P x \<and> (c, t) \<in> set (ms (Star (Cls P)) xs))"
    by (auto simp: ms_star_cls_Cons split: if_splits)
  then show ?case
  proof
    assume "(c, t) = ([], x # xs)"
    then show ?thesis by simp
  next
    assume a: "P x \<and> (c, t) \<in> set (ms (Star (Cls P)) xs)"
    then obtain u where u: "c = []" "xs = u @ t" "list_all P u" using Cons.IH by blast
    then have "x # xs = (x # u) @ t" "list_all P (x # u)" using a by simp_all
    then show ?thesis using u(1) by blast
  qed
qed

lemma ms_plus_cls_mem:
  assumes "(c, t) \<in> set (ms (rx_plus (Cls P)) s)"
  shows "c = [] \<and> (\<exists>u. s = u @ t \<and> u \<noteq> [] \<and> list_all P u)"
proof -
  obtain c1 t1 c2 where m: "(c1, t1) \<in> set (ms (Cls P) s)"
      "(c2, t) \<in> set (ms (Star (Cls P)) t1)" "c = c1 @ c2"
    using ms_SeqD[OF assms[unfolded rx_plus_def]] by blast
  obtain x where x: "c1 = []" "s = x # t1" "P x" using m(1) by (auto simp: ms_Cls_mem)
  obtain u where u: "c2 = []" "t1 = u @ t" "list_all P u" using ms_star_cls_mem[OF m(2)] by blast
  have "s = (x # u) @ t" "x # u \<noteq> []" "list_all P (x # u)" using x u by simp_all
  then show ?thesis using m(3) x(1) u(1) by blast
qed

lemma numeric_require_caps:
  assumes "(c, t) \<in> set (ms (seqs [str p, Grp 1 (rx_plus rx_digit), Chr x]) s)"
  shows "\<exists>u. c = [(1, u)] \<and> all_digits u"
proof -
  have "(c, t) \<in> set (ms (Seq (str p) (Seq (Grp 1 (rx_plus rx_digit)) (Seq (Chr x) Eps))) s)"
    using assms by (simp only: seqs.simps)
  then obtain c1 t1 c2 where a: "(c1, t1) \<in> set (ms (str p) s)"
      "(c2, t) \<in> set (ms (Seq (Grp 1 (rx_plus rx_digit)) (Seq (Chr x) Eps)) t1)" "c = c1 @ c2"
    using ms_SeqD by blast
  obtain c3 t2 c4 where b: "(c3, t2) \<in> set (ms (Grp 1 (rx_plus rx_digit)) t1)"
      "(c4, t) \<in> set (ms (Seq (Chr x) Eps) t2)" "c2 = c3 @ c4"
    using ms_SeqD[OF a(2)] by blast
  obtain c5 where g: "(c5, t2) \<in> set (ms (rx_plus rx_digit) t1)"
      "c3 = (1, take (length t1 - length t2) t1) # c5"
    using ms_GrpD[OF b(1)] by blast
  obtain u where u: "c5 = []" "t1 = u @ t2" "u \<noteq> []" "list_all is_digit u"
    using ms_plus_cls_mem[OF g(1)[unfolded rx_digit_def]] by blast
  obtain c6 t3 c7 where e: "(c6, t3) \<in> set (ms (Chr x) t2)" "(c7, t) \<in> set (ms Eps t3)"
      "c4 = c6 @ c7"
    using ms_SeqD[OF b(2)] by blast
  have c4: "c4 = []" using e by (simp add: ms_Chr_mem)
  have c1: "c1 = []" using a(1) by (rule ms_str_mem)
  have "take (length t1 - length t2) t1 = u" using u(2) by simp
  then have "c = [(1, u)]" using a(3) b(3) g(2) u(1) c4 c1 by simp
  then show ?thesis using u(3,4) by (auto simp: all_digits_def)
qed

lemma scan_no_match_Nil: "ms r [] = [] \<Longrightarrow> scan r i [] = []"
  by (subst scan.simps) simp

lemma scan_no_match_Cons: "ms r (x # xs) = [] \<Longrightarrow> scan r i (x # xs) = scan r (i + 1) xs"
  by (subst scan.simps) simp

lemma scan_match:
  "ms r s = (c, rest) # l \<Longrightarrow>
   scan r i s =
     \<lparr>m_index = i, m_text = take (length s - length rest) s, m_groups = c\<rparr> #
     (if length rest < length s then scan r (i + (length s - length rest)) rest
      else (case s of [] \<Rightarrow> [] | x # xs \<Rightarrow> scan r (i + 1) xs))"
  by (subst scan.simps) simp

lemma scan_groups:
  "m \<in> set (scan r i s) \<Longrightarrow> \<exists>s' rest. (m_groups m, rest) \<in> set (ms r s')"
proof (induction r i s rule: scan.induct)
  case (1 r i s)
  show ?case
  proof (cases "ms r s")
    case Nil
    show ?thesis
    proof (cases s)
      case Nil
      with \<open>ms r s = []\<close> "1.prems" show ?thesis by (simp add: scan_no_match_Nil)
    next
      case (Cons x xs)
      with \<open>ms r s = []\<close> "1.prems" have "m \<in> set (scan r (i + 1) xs)"
        by (simp add: scan_no_match_Cons)
      then show ?thesis using "1.IH"(1)[OF \<open>ms r s = []\<close> Cons] by blast
    qed
  next
    case (Cons a list)
    obtain c rest where a: "a = (c, rest)" by (cases a)
    have mem: "(c, rest) \<in> set (ms r s)" using Cons a by simp
    have e: "ms r s = (c, rest) # list" using Cons a by simp
    from "1.prems" have
      "m_groups m = c \<or>
       (length rest < length s \<and> m \<in> set (scan r (i + (length s - length rest)) rest)) \<or>
       (\<not> length rest < length s \<and> (\<exists>x xs. s = x # xs \<and> m \<in> set (scan r (i + 1) xs)))"
      unfolding scan_match[OF e] by (auto split: if_splits list.splits)
    then show ?thesis
    proof (elim disjE conjE exE)
      assume "m_groups m = c"
      then show ?thesis using mem by blast
    next
      assume "length rest < length s" "m \<in> set (scan r (i + (length s - length rest)) rest)"
      then show ?thesis using "1.IH"(2)[OF Cons a[symmetric]] by blast
    next
      fix x xs
      assume "\<not> length rest < length s" "s = x # xs" "m \<in> set (scan r (i + 1) xs)"
      then show ?thesis using "1.IH"(3)[OF Cons a[symmetric]] by blast
    qed
  qed
qed


lemma numeric_require_names:
  assumes "m \<in> set (matchAll (seqs [str p, Grp 1 (rx_plus rx_digit), Chr x]) content)"
  shows "all_digits (grp1 m)"
proof -
  obtain s' rest where
    "(m_groups m, rest) \<in> set (ms (seqs [str p, Grp 1 (rx_plus rx_digit), Chr x]) s')"
    using assms scan_groups unfolding matchAll_def by blast
  then obtain u where "m_groups m = [(1, u)]" "all_digits u"
    using numeric_require_caps by blast
  then show ?thesis by (simp add: grp1_def grp_def)
qed

lemma filter_all_excluded:
  "(\<And>m. m \<in> set xs \<Longrightarrow> Q (f m)) \<Longrightarrow> filter (\<lambda>n. A n \<and> \<not> Q n) (map f xs) = []"
  by (induction xs) auto

lemma numeric_filter:
  "filter (\<lambda>n. n \<noteq> [] \<and> \<not> all_digits n)
     (map grp1 (matchAll (seqs [str p, Grp 1 (rx_plus rx_digit), Chr x]) content)) = []"
  by (rule filter_all_excluded) (rule numeric_require_names)

lemma no_string_calls_no_names:
  assumes "stringRequireCalls content = []"
  shows "moduleNamesOf content = []"
proof -
  let ?named = "\<lambda>n. n \<noteq> [] \<and> \<not> all_digits n"
  have s: "matchAll (seqs [str ''webpack_require('', one_of quotes,
              Grp 1 (rx_plus (none_of quotes)), one_of quotes, Chr CHR '')'']) content = []"
      "matchAll (seqs [str ''__webpack_require__('', one_of quotes,
              Grp 1 (rx_plus (none_of quotes)), one_of quotes, Chr CHR '')'']) content = []"
    using assms by (simp_all add: stringRequireCalls_def requirePatterns_def)
  have n1: "filter ?named (map grp1 (matchAll
              (seqs [str ''webpack_require('', Grp 1 (rx_plus rx_digit), Chr CHR '')''])
              content)) = []"
    by (rule numeric_filter)
  have n2: "filter ?named (map grp1 (matchAll
              (seqs [str ''__webpack_require__('', Grp 1 (rx_plus rx_digit), Chr CHR '')''])
              content)) = []"
    by (rule numeric_filter)
  show ?thesis
    unfolding moduleNamesOf_def requirePatterns_def
    by (simp only: list.map concat.simps filter_append s n1 n2 append_Nil append_Nil2
        filter.simps uniq.simps)
qed

lemma numeric_targets_example:
  "stringRequireCalls ''__webpack_require__(1);__webpack_require__(12)'' = [] \<and>
   moduleNamesOf ''__webpack_require__(1);__webpack_require__(12)'' = []"
  by code_simp

subsection \<open>The fallback\<close>

lemma ingest_estimate:
  assumes "toLowerCase (extension (file_name f)) = ''js''"
    and "file_text f = Some content"
    and "str_includes content ''__webpack_require__(1)''"
    and "moduleNamesOf content = []"
  shows "bd_modules (ingest h [f]) = estimateBundleModules content"
    and "bd_totalSize (ingest h [f]) = sumSizes (estimateBundleModules content)"
  by (simp_all add: ingest_def analyzeFiles_def Let_def processFiles_def
      modules_generateInsights processFile_estimate[OF assms] newBundleAnalyzer_def)

text \<open>
  C9: a \<open>.js\<close> file whose text contains \<open>__webpack_require__(1)\<close> and no require call
  with a string-literal argument is ingested as the five modules of the estimation table,
  of sizes the floors of 0.15, 0.12, 0.25, 0.35 and 0.13 times the text length; their sum
  is at most the text length and at most 5 below it. The text is shorter than \<open>2^52\<close>
  code units, as every string of the language is.
\<close>

theorem estimation_fallback:
  assumes "toLowerCase (extension (file_name f)) = ''js''"
    and "file_text f = Some content"
    and "str_includes content ''__webpack_require__(1)''"
    and "stringRequireCalls content = []"
    and "length content < 2 ^ 52"
  shows "ba_modules (processFile h f this) = ba_modules this @ estimateBundleModules content \<and>
         bd_modules (ingest h [f]) = estimateBundleModules content \<and>
         length (bd_modules (ingest h [f])) = 5 \<and>
         map mod_name (bd_modules (ingest h [f])) =
           [''React Core'', ''React DOM'', ''Application Code'', ''Dependencies'', ''Runtime''] \<and>
         map mod_size (bd_modules (ingest h [f])) =
           [math_floor (js_mul (num_of_nat (length content)) (lit (15 / 100))),
            math_floor (js_mul (num_of_nat (length content)) (lit (12 / 100))),
            math_floor (js_mul (num_of_nat (length content)) (lit (25 / 100))),
            math_floor (js_mul (num_of_nat (length content)) (lit (35 / 100))),
            math_floor (js_mul (num_of_nat (length content)) (lit (13 / 100)))] \<and>
         (\<exists>t::int. bd_totalSize (ingest h [f]) = Fin (of_int t) \<and>
            int (length content) - 5 \<le> t \<and> t \<le> int (length content))"
proof (intro conjI)
  note n = no_string_calls_no_names[OF assms(4)]
  note i = ingest_estimate[OF assms(1,2,3) n]
  show "ba_modules (processFile h f this) = ba_modules this @ estimateBundleModules content"
    by (simp add: processFile_estimate[OF assms(1,2,3) n])
  show "bd_modules (ingest h [f]) = estimateBundleModules content" by (rule i(1))
  have "length (map mod_name (estimateBundleModules content)) = 5"
    by (simp only: estimate_names) simp
  then show "length (bd_modules (ingest h [f])) = 5" by (simp add: i(1))
  show "map mod_name (bd_modules (ingest h [f])) =
           [''React Core'', ''React DOM'', ''Application Code'', ''Dependencies'', ''Runtime'']"
    by (simp only: i(1) estimate_names)
  show "map mod_size (bd_modules (ingest h [f])) =
           [math_floor (js_mul (num_of_nat (length content)) (lit (15 / 100))),
            math_floor (js_mul (num_of_nat (length content)) (lit (12 / 100))),
            math_floor (js_mul (num_of_nat (length content)) (lit (25 / 100))),
            math_floor (js_mul (num_of_nat (length content)) (lit (35 / 100))),
            math_floor (js_mul (num_of_nat (length content)) (lit (13 / 100)))]"
    by (simp only: i(1) estimate_mod_sizes)
  show "\<exists>t::int. bd_totalSize (ingest h [f]) = Fin (of_int t) \<and>
            int (length content) - 5 \<le> t \<and> t \<le> int (length content)"
    using estimate_total[OF assms(5)] by (simp only: i(2))
qed

theorem estimation_fallback_witness:
  "length (bd_modules (ingest (sampleHost []) [bundleFile])) = 5 \<and>
   (\<exists>t::int. bd_totalSize (ingest (sampleHost []) [bundleFile]) = Fin (of_int t) \<and>
      int (length bundleText) - 5 \<le> t \<and> t \<le> int (length bundleText))"
proof -
  have 1: "toLowerCase (extension (file_name bundleFile)) = ''js''" by code_simp
  have 2: "file_text bundleFile = Some bundleText" by (simp add: bundleFile_def)
  have 3: "str_includes bundleText ''__webpack_require__(1)''" by code_simp
  have 4: "stringRequireCalls bundleText = []" by code_simp
  have 5: "length bundleText < 2 ^ 52" by (simp add: bundleText_def)
  show ?thesis
    using estimation_fallback[OF 1 2 3 4 5, of "sampleHost []" newBundleAnalyzer] by blast
qed

end
